theory Spec2Isabelle
  imports Main "HOL-Library.Sublist" "HOL-Library.Multiset"
begin

section \<open>Text: Python strings and the Unicode tables\<close>

text \<open>
  A Python \<^verbatim>\<open>str\<close> is a sequence of Unicode code points, modelled as a list of integers;
  \<open>ord\<close> is the code point of an ASCII character and \<open>ascii\<close> the string of an
  ASCII literal.
\<close>

type_synonym str = "int list"

definition ord :: "char \<Rightarrow> int" where
  "ord c = of_char c"

definition ascii :: "string \<Rightarrow> str" where
  "ascii s = map ord s"

text \<open>
  What Python reads in the Unicode character database is a parameter of the model, the
  record \<open>U\<close> that the functions below take first: \<^verbatim>\<open>str.isalpha\<close>, \<^verbatim>\<open>str.isdigit\<close>,
  \<^verbatim>\<open>str.isnumeric\<close> and \<^verbatim>\<open>str.isspace\<close> on one character; the value of a character as a
  decimal digit, negative when it is none (\<^verbatim>\<open>Py_UNICODE_TODECIMAL\<close>); and \<^verbatim>\<open>str.lower\<close>,
  which acts on a whole string (the lower case of a character can be several characters, and
  can depend on its neighbours).
\<close>

record unicode =
  u_isalpha :: "int \<Rightarrow> bool"
  u_todecimal :: "int \<Rightarrow> int"
  u_isdigit :: "int \<Rightarrow> bool"
  u_isnumeric :: "int \<Rightarrow> bool"
  u_isspace :: "int \<Rightarrow> bool"
  u_lower :: "str \<Rightarrow> str"

definition lower :: "unicode \<Rightarrow> str \<Rightarrow> str" where
  "lower U s = u_lower U s"

text \<open>\<^verbatim>\<open>str.isdecimal\<close> and \<^verbatim>\<open>str.isalnum\<close> on one character, as CPython defines them.\<close>

definition isdecimal :: "unicode \<Rightarrow> int \<Rightarrow> bool" where
  "isdecimal U c = (0 \<le> u_todecimal U c)"

definition isalnum :: "unicode \<Rightarrow> int \<Rightarrow> bool" where
  "isalnum U c = (u_isalpha U c \<or> isdecimal U c \<or> u_isdigit U c \<or> u_isnumeric U c)"

text \<open>
  The regular-expression classes \<^verbatim>\<open>\w\<close> and \<^verbatim>\<open>\d\<close> of a \<^verbatim>\<open>str\<close> pattern on one
  character: the alphanumeric characters and the underscore; the decimal digits.
\<close>

definition re_word :: "unicode \<Rightarrow> int \<Rightarrow> bool" where
  "re_word U c = (isalnum U c \<or> c = ord (CHR ''_''))"

definition re_digit :: "unicode \<Rightarrow> int \<Rightarrow> bool" where
  "re_digit U c = isdecimal U c"

text \<open>\<^verbatim>\<open>s.startswith(p)\<close>, \<^verbatim>\<open>s.endswith(p)\<close> and the substring test \<^verbatim>\<open>p in s\<close>.\<close>

fun startswith :: "str \<Rightarrow> str \<Rightarrow> bool" where
  "startswith s [] = True"
| "startswith [] (p # ps) = False"
| "startswith (c # cs) (p # ps) = (if c = p then startswith cs ps else False)"

definition endswith :: "str \<Rightarrow> str \<Rightarrow> bool" where
  "endswith s p = startswith (rev s) (rev p)"

fun str_in :: "str \<Rightarrow> str \<Rightarrow> bool" where
  "str_in p [] = (p = [])"
| "str_in p (c # cs) = (if startswith (c # cs) p then True else str_in p cs)"

text \<open>
  \<^verbatim>\<open>re.sub(r'[^\w\d.-]', '_', invoice_number).lower()\<close>, the fragment of a file name
  that \<^verbatim>\<open>_find_single_invoice_attachment\<close> and \<^verbatim>\<open>_find_missing_invoices\<close> look for.
\<close>

definition in_fragment_class :: "unicode \<Rightarrow> int \<Rightarrow> bool" where
  "in_fragment_class U c =
     (re_word U c \<or> re_digit U c \<or> c = ord (CHR ''.'') \<or> c = ord (CHR ''-''))"

definition re_sub_fragment :: "unicode \<Rightarrow> str \<Rightarrow> str" where
  "re_sub_fragment U s = map (\<lambda>c. if in_fragment_class U c then c else ord (CHR ''_'')) s"

definition search_fragment :: "unicode \<Rightarrow> str \<Rightarrow> str" where
  "search_fragment U invoice_number = lower U (re_sub_fragment U invoice_number)"

text \<open>
  The tables on ASCII: the letters \<open>A..Z\<close> and \<open>a..z\<close>, the digits \<open>0..9\<close> with their
  values, the white space \<open>0x09..0x0D\<close>, \<open>0x1C..0x1F\<close> and \<open>0x20\<close>, and \<open>A..Z\<close> lowered to
  \<open>a..z\<close>. \<open>ascii_table\<close> knows nothing beyond; the worked cases, whose strings are
  ASCII, are computed with it. \<open>agrees_on_ascii U\<close> says that the tables \<open>U\<close> are these on
  ASCII, as the tables of Python are.
\<close>

definition ascii_table :: unicode where
  "ascii_table =
     \<lparr>u_isalpha = (\<lambda>c. (65 \<le> c \<and> c \<le> 90) \<or> (97 \<le> c \<and> c \<le> 122)),
      u_todecimal = (\<lambda>c. if 48 \<le> c \<and> c \<le> 57 then c - 48 else - 1),
      u_isdigit = (\<lambda>c. 48 \<le> c \<and> c \<le> 57),
      u_isnumeric = (\<lambda>c. 48 \<le> c \<and> c \<le> 57),
      u_isspace = (\<lambda>c. (9 \<le> c \<and> c \<le> 13) \<or> (28 \<le> c \<and> c \<le> 32)),
      u_lower = map (\<lambda>c. if 65 \<le> c \<and> c \<le> 90 then c + 32 else c)\<rparr>"

definition is_ascii :: "str \<Rightarrow> bool" where
  "is_ascii s = list_all (\<lambda>c. 0 \<le> c \<and> c < 128) s"

definition agrees_on_ascii :: "unicode \<Rightarrow> bool" where
  "agrees_on_ascii U =
     ((\<forall>c. 0 \<le> c \<and> c < 128 \<longrightarrow>
          u_isalpha U c = u_isalpha ascii_table c
        \<and> u_todecimal U c = u_todecimal ascii_table c
        \<and> u_isdigit U c = u_isdigit ascii_table c
        \<and> u_isnumeric U c = u_isnumeric ascii_table c
        \<and> u_isspace U c = u_isspace ascii_table c)
      \<and> (\<forall>s. is_ascii s \<longrightarrow> u_lower U s = u_lower ascii_table s))"

section \<open>Exceptions, and the cancellation event\<close>

text \<open>
  Every \<^verbatim>\<open>raise\<close> of the source is a value: a function that can raise returns
  \<open>exn + 'a\<close>, with \<open>Inl\<close> the exception. \<open>StoreError\<close> stands for any other
  \<^verbatim>\<open>Exception\<close> that a call to the mail server raises.
\<close>

datatype exn =
    OperationCancelledError
  | FolderNotFoundError
  | PDFProcessingError
  | IndexError
  | ValueError
  | TypeError
  | AttributeError
  | OverflowError
  | ReError
  | StoreError

text \<open>
  \<^verbatim>\<open>stop_event\<close> is a \<^verbatim>\<open>threading.Event\<close> that another thread may set at any moment.
  It is modelled by what each successive call of \<^verbatim>\<open>is_set()\<close> answers: \<open>stop k\<close> is the
  answer to the \<open>k\<close>-th poll of the run. A function that polls takes the number of polls
  made so far and returns, next to its result, the number made when it ends.
\<close>

type_synonym stop_event = "nat \<Rightarrow> bool"

type_synonym 'a outcome = "(exn + 'a) \<times> nat"

text \<open>A run that nobody cancels: every poll answers no.\<close>

definition never_set :: "stop_event \<Rightarrow> bool" where
  "never_set stop = (\<forall>k. \<not> stop k)"

section \<open>The message store\<close>

text \<open>
  The bytes of an attachment are seen through what PyPDF2 makes of them: the reader either
  raises, or gives the pages, and \<^verbatim>\<open>extract_text\<close> on a page either raises or returns a text
  (the empty text stands for \<^verbatim>\<open>None\<close> as well).
\<close>

datatype page = Page_raises | Page_text str

datatype pdf_content = Unreadable | Pdf "page list"

record attachment =
  att_name :: str
  is_file_attachment :: bool
  att_content :: pdf_content

record email =
  subject :: str
  sender_address :: str
  datetime_received :: int
  has_attachments :: bool
  is_read :: bool
  attachments :: "attachment list"

datatype folder =
  Folder (folder_name: str) (children: "folder list") (items: "email list")

record account =
  inbox :: "folder option"
  sent :: "folder option"
  root :: "folder option"

text \<open>\<^verbatim>\<open>folder_path.split('/')\<close>: the empty string gives one empty part.\<close>

fun split_on :: "int \<Rightarrow> str \<Rightarrow> str list" where
  "split_on sep [] = [[]]"
| "split_on sep (c # cs) =
     (if c = sep then [] # split_on sep cs
      else (case split_on sep cs of
              [] \<Rightarrow> [[c]]
            | p # ps \<Rightarrow> (c # p) # ps))"

text \<open>
  The loop of \<^verbatim>\<open>get_folder_by_path\<close> over the parts of the path. A part that no child
  folder carries raises \<open>FolderNotFoundError\<close>; so does any exception that reading the
  children raises, which the source catches and raises again under that name.
\<close>

fun navigate :: "unicode \<Rightarrow> folder \<Rightarrow> str list \<Rightarrow> exn + folder" where
  "navigate U current_folder [] = Inr current_folder"
| "navigate U current_folder (part # path_parts) =
     (if part = [] then navigate U current_folder path_parts
      else (case find (\<lambda>child. lower U (folder_name child) = lower U part)
                   (children current_folder) of
              Some next_folder \<Rightarrow> navigate U next_folder path_parts
            | None \<Rightarrow> Inl FolderNotFoundError))"

definition elementy_wyslane :: str where
  "elementy_wyslane = ascii ''elementy wys'' @ [322] @ ascii ''ane''"

text \<open>
  \<^verbatim>\<open>ExchangeClient.get_folder_by_path\<close>. Its annotation is \<^verbatim>\<open>Optional[Folder]\<close>; the result
  type keeps the \<open>option\<close>, and the only value the body returns is the folder it reached.
\<close>

definition get_folder_by_path :: "unicode \<Rightarrow> account \<Rightarrow> str \<Rightarrow> exn + folder option" where
  "get_folder_by_path U acc folder_path =
     (if folder_path = [] then Inl FolderNotFoundError
      else (case split_on (ord (CHR ''/'')) folder_path of
              [] \<Rightarrow> Inl IndexError
            | p # ps \<Rightarrow>
                (let first_part = lower U p;
                     (current_folder, path_parts) =
                        (if first_part \<in> set [ascii ''inbox'', ascii ''skrzynka odbiorcza'']
                           then (inbox acc, ps)
                         else if first_part \<in> set [ascii ''sent items'', elementy_wyslane]
                           then (sent acc, ps)
                         else (root acc, p # ps))
                 in (case current_folder of
                       None \<Rightarrow> Inl FolderNotFoundError
                     | Some start \<Rightarrow>
                         (case navigate U start path_parts of
                            Inl e \<Rightarrow> Inl e
                          | Inr f \<Rightarrow> Inr (Some f))))))"

text \<open>
  \<^verbatim>\<open>folder.filter(has_attachments=True, datetime_received__gte=start,
  datetime_received__lt=end).order_by('-datetime_received')\<close>: the messages of the folder
  received in \<open>[start, end)\<close>, newest first; messages received at the same instant keep
  the order the folder holds them in.
\<close>

definition folder_filter :: "folder \<Rightarrow> int \<Rightarrow> int \<Rightarrow> email list" where
  "folder_filter f start_datetime end_datetime =
     sort_key (\<lambda>e. - datetime_received e)
       (filter (\<lambda>e. has_attachments e \<and> start_datetime \<le> datetime_received e
                    \<and> datetime_received e < end_datetime)
          (items f))"

text \<open>
  The query is read lazily and the server may fail while it is read. \<open>fault = Some k\<close>:
  the server raises once \<open>k\<close> messages have been handed over; \<open>None\<close>: it does not raise.
\<close>

definition fetched :: "nat option \<Rightarrow> email list \<Rightarrow> email list" where
  "fetched fault emails = (case fault of None \<Rightarrow> emails | Some k \<Rightarrow> take k emails)"

section \<open>Search criteria (models.py)\<close>

record main_email_criteria =
  main_folder_path :: str
  subject_contains :: str
  sender_contains :: str
  only_unread :: bool
  require_attachments :: bool

record attachment_criteria =
  name_contains :: str
  extension :: str

record extraction_criteria =
  regex_pattern :: str

record related_email_criteria =
  related_folder_path :: str
  file_extension :: str

record search_criteria =
  main_email :: main_email_criteria
  main_attachment :: attachment_criteria
  extraction :: extraction_criteria
  related_emails :: related_email_criteria
  months_back_compensation :: int
  months_back_invoices :: int

section \<open>EmailService: searching the invoices\<close>

text \<open>The test of \<^verbatim>\<open>_find_single_invoice_attachment\<close> on one attachment.\<close>

definition attachment_matches :: "unicode \<Rightarrow> str \<Rightarrow> str \<Rightarrow> attachment \<Rightarrow> bool" where
  "attachment_matches U search_frag file_ext a =
     (if is_file_attachment a
      then (let att_name_lower = lower U (att_name a)
            in endswith att_name_lower (ascii ''.'' @ lower U file_ext)
               \<and> str_in search_frag att_name_lower)
      else False)"

text \<open>The inner loop, \<^verbatim>\<open>for attachment in email.attachments\<close>.\<close>

fun check_attachments ::
  "unicode \<Rightarrow> stop_event \<Rightarrow> str \<Rightarrow> str \<Rightarrow> attachment list \<Rightarrow> nat \<Rightarrow> attachment option outcome"
where
  "check_attachments U stop frag ext [] n = (Inr None, n)"
| "check_attachments U stop frag ext (a # as) n =
     (if stop n then (Inl OperationCancelledError, Suc n)
      else if attachment_matches U frag ext a then (Inr (Some a), Suc n)
      else check_attachments U stop frag ext as (Suc n))"

text \<open>The outer loop, \<^verbatim>\<open>for email in emails\<close>.\<close>

fun check_emails ::
  "unicode \<Rightarrow> stop_event \<Rightarrow> str \<Rightarrow> str \<Rightarrow> email list \<Rightarrow> nat \<Rightarrow> attachment option outcome"
where
  "check_emails U stop frag ext [] n = (Inr None, n)"
| "check_emails U stop frag ext (e # es) n =
     (if stop n then (Inl OperationCancelledError, Suc n)
      else if attachments e = [] then check_emails U stop frag ext es (Suc n)
      else (case check_attachments U stop frag ext (attachments e) (Suc n) of
              (Inl x, n') \<Rightarrow> (Inl x, n')
            | (Inr (Some a), n') \<Rightarrow> (Inr (Some a), n')
            | (Inr None, n') \<Rightarrow> check_emails U stop frag ext es n'))"

text \<open>
  \<^verbatim>\<open>EmailService._find_single_invoice_attachment\<close>. A cancellation is raised again; any
  other exception ends the search with \<^verbatim>\<open>None\<close>, as the end of the messages does.
\<close>

definition find_single_invoice_attachment ::
  "unicode \<Rightarrow> stop_event \<Rightarrow> nat option \<Rightarrow> folder \<Rightarrow> str \<Rightarrow> int \<Rightarrow> int \<Rightarrow> str \<Rightarrow> nat
     \<Rightarrow> attachment option outcome"
where
  "find_single_invoice_attachment U stop fault f invoice_number start_datetime end_datetime
       file_ext n =
     check_emails U stop (search_fragment U invoice_number) file_ext
       (fetched fault (folder_filter f start_datetime end_datetime)) n"

text \<open>
  Dates and times are the microseconds of the local clock since 1970-01-01. A
  \<^verbatim>\<open>timedelta\<close> holds at most 999999999 days, and a \<^verbatim>\<open>datetime\<close> lies between the years 1
  and 9999: \<^verbatim>\<open>timedelta(days=d)\<close> and the sum of a date and a duration raise
  \<open>OverflowError\<close> beyond.
\<close>

definition timedelta_days :: "int \<Rightarrow> exn + int" where
  "timedelta_days d =
     (if - 999999999 \<le> d \<and> d \<le> 999999999 then Inr (d * 86400000000) else Inl OverflowError)"

definition datetime_min :: int where
  "datetime_min = - 62135596800000000"

definition datetime_max :: int where
  "datetime_max = 253402300799999999"

definition datetime_plus :: "int \<Rightarrow> int \<Rightarrow> exn + int" where
  "datetime_plus t delta =
     (if datetime_min \<le> t + delta \<and> t + delta \<le> datetime_max then Inr (t + delta)
      else Inl OverflowError)"

text \<open>
  The window of \<^verbatim>\<open>find_related_invoices\<close>, its start and its end:
  \<^verbatim>\<open>end_datetime = ref_date_aware + timedelta(days=2)\<close>, then
  \<^verbatim>\<open>start_datetime = ref_date_aware - timedelta(days=criteria.months_back_invoices * 31)\<close>.
\<close>

definition invoice_window :: "int \<Rightarrow> int \<Rightarrow> exn + int \<times> int" where
  "invoice_window reference_date months_back =
     (case timedelta_days 2 of
        Inl x \<Rightarrow> Inl x
      | Inr two_days \<Rightarrow>
          (case datetime_plus reference_date two_days of
             Inl x \<Rightarrow> Inl x
           | Inr end_datetime \<Rightarrow>
               (case timedelta_days (months_back * 31) of
                  Inl x \<Rightarrow> Inl x
                | Inr delta \<Rightarrow>
                    (case datetime_plus reference_date (- delta) of
                       Inl x \<Rightarrow> Inl x
                     | Inr start_datetime \<Rightarrow> Inr (start_datetime, end_datetime)))))"

text \<open>
  The loop of \<^verbatim>\<open>find_related_invoices\<close> over the invoice numbers; \<open>i\<close> counts the
  searches made, and \<open>faults i\<close> is the fault of the \<open>i\<close>-th one.
\<close>

fun related_loop ::
  "unicode \<Rightarrow> stop_event \<Rightarrow> (nat \<Rightarrow> nat option) \<Rightarrow> folder \<Rightarrow> int \<Rightarrow> int \<Rightarrow> str \<Rightarrow> str list \<Rightarrow> nat
     \<Rightarrow> attachment list \<Rightarrow> nat \<Rightarrow> attachment list outcome"
where
  "related_loop U stop faults f s e ext [] i found_attachments n = (Inr found_attachments, n)"
| "related_loop U stop faults f s e ext (invoice_number # rest) i found_attachments n =
     (if stop n then (Inl OperationCancelledError, Suc n)
      else (case find_single_invoice_attachment U stop (faults i) f invoice_number s e ext (Suc n) of
              (Inl x, n') \<Rightarrow> (Inl x, n')
            | (Inr (Some a), n') \<Rightarrow>
                related_loop U stop faults f s e ext rest (Suc i) (found_attachments @ [a]) n'
            | (Inr None, n') \<Rightarrow>
                related_loop U stop faults f s e ext rest (Suc i) found_attachments n'))"

text \<open>
  \<^verbatim>\<open>EmailService.find_related_invoices\<close>. The reference date is already a time of the
  server's zone. The call of \<^verbatim>\<open>get_folder_by_path\<close> and the computation of the window
  stand outside every \<^verbatim>\<open>try\<close>.
\<close>

definition find_related_invoices ::
  "unicode \<Rightarrow> stop_event \<Rightarrow> (nat \<Rightarrow> nat option) \<Rightarrow> account \<Rightarrow> str list \<Rightarrow> int \<Rightarrow> search_criteria \<Rightarrow> nat
     \<Rightarrow> attachment list outcome"
where
  "find_related_invoices U stop faults acc extracted_data reference_date criteria n =
     (if stop n then (Inl OperationCancelledError, Suc n)
      else if extracted_data = [] then (Inr [], Suc n)
      else (case get_folder_by_path U acc (related_folder_path (related_emails criteria)) of
              Inl x \<Rightarrow> (Inl x, Suc n)
            | Inr None \<Rightarrow> (Inr [], Suc n)
            | Inr (Some f) \<Rightarrow>
                (case invoice_window reference_date (months_back_invoices criteria) of
                   Inl x \<Rightarrow> (Inl x, Suc n)
                 | Inr (start_datetime, end_datetime) \<Rightarrow>
                     related_loop U stop faults f start_datetime end_datetime
                       (file_extension (related_emails criteria)) extracted_data 0 [] (Suc n))))"

text \<open>\<^verbatim>\<open>EmailService._find_missing_invoices\<close>: the loop, then the method.\<close>

fun missing_loop :: "unicode \<Rightarrow> str list \<Rightarrow> str list \<Rightarrow> str list \<Rightarrow> str list" where
  "missing_loop U found_names_lower [] missing = missing"
| "missing_loop U found_names_lower (invoice_number # rest) missing =
     (if list_ex (\<lambda>filename. str_in (search_fragment U invoice_number) filename) found_names_lower
      then missing_loop U found_names_lower rest missing
      else missing_loop U found_names_lower rest (missing @ [invoice_number]))"

definition find_missing_invoices :: "unicode \<Rightarrow> str list \<Rightarrow> attachment list \<Rightarrow> str list" where
  "find_missing_invoices U extracted_data found_attachments =
     missing_loop U (remdups (map (\<lambda>att. lower U (att_name att)) found_attachments))
       extracted_data []"

section \<open>EmailTemplate.format (models.py)\<close>

text \<open>
  The values the callers pass as keyword arguments: strings, integers (the counts) and lists
  of strings (the invoice numbers).
\<close>

datatype pyval = PStr str | PInt int | PList "str list"

text \<open>
  What \<^verbatim>\<open>str.format_map\<close> leaves to the objects it formats is a parameter of the model:
  \<open>rt_str_list\<close> is \<^verbatim>\<open>str\<close> of a list of strings; \<open>rt_attribute\<close> renders a replacement field
  from its first attribute access on (it is given the mapping, the object reached, the rest
  of the field name, the conversion and the format specification); \<open>rt_format\<close> renders an
  object under a conversion or a non-empty format specification.
\<close>

record py_runtime =
  rt_str_list :: "str list \<Rightarrow> str"
  rt_attribute :: "(str \<Rightarrow> pyval) \<Rightarrow> pyval \<Rightarrow> str \<Rightarrow> int option \<Rightarrow> str \<Rightarrow> exn + str"
  rt_format :: "(str \<Rightarrow> pyval) \<Rightarrow> pyval \<Rightarrow> int option \<Rightarrow> str \<Rightarrow> exn + str"

fun dec_nat :: "nat \<Rightarrow> str" where
  "dec_nat n = (if n < 10 then [48 + int n] else dec_nat (n div 10) @ [48 + int (n mod 10)])"

declare dec_nat.simps [simp del]

definition dec_int :: "int \<Rightarrow> str" where
  "dec_int i = (if i < 0 then ascii ''-'' @ dec_nat (nat (- i)) else dec_nat (nat i))"

definition py_str :: "py_runtime \<Rightarrow> pyval \<Rightarrow> str" where
  "py_str rt v = (case v of PStr s \<Rightarrow> s | PInt i \<Rightarrow> dec_int i | PList xs \<Rightarrow> rt_str_list rt xs)"

text \<open>Truth value of an object, and \<^verbatim>\<open>sep.join(parts)\<close>.\<close>

definition truthy :: "pyval \<Rightarrow> bool" where
  "truthy v = (case v of PStr s \<Rightarrow> s \<noteq> [] | PInt i \<Rightarrow> i \<noteq> 0 | PList xs \<Rightarrow> xs \<noteq> [])"

fun join :: "str \<Rightarrow> str list \<Rightarrow> str" where
  "join sep [] = []"
| "join sep [x] = x"
| "join sep (x # y # ys) = x @ sep @ join sep (y # ys)"

subsection \<open>The replacement fields of a format string\<close>

text \<open>
  The integer a field name or an index may be (\<^verbatim>\<open>get_integer\<close> of CPython): the decimal
  digits, those of any script, are accumulated from the left; the first character that is no
  decimal digit ends the attempt (no integer); a value beyond the largest index,
  \<open>2^63 - 1 = 9223372036854775807\<close>, raises \<open>ValueError\<close>. The empty string is no integer.
\<close>

definition py_ssize_t_max :: int where
  "py_ssize_t_max = 9223372036854775807"

fun get_integer_from :: "unicode \<Rightarrow> int \<Rightarrow> str \<Rightarrow> exn + int option" where
  "get_integer_from U accumulator [] = Inr (Some accumulator)"
| "get_integer_from U accumulator (c # cs) =
     (let digitval = u_todecimal U c
      in if digitval < 0 then Inr None
         else if accumulator > (py_ssize_t_max - digitval) div 10 then Inl ValueError
         else get_integer_from U (accumulator * 10 + digitval) cs)"

definition get_integer :: "unicode \<Rightarrow> str \<Rightarrow> exn + int option" where
  "get_integer U s = (if s = [] then Inr None else get_integer_from U 0 s)"

text \<open>\<open>obj[index]\<close>, the index being an integer or, when it is none, a string key.\<close>

definition getitem :: "pyval \<Rightarrow> int option \<Rightarrow> exn + pyval" where
  "getitem obj index =
     (case index of
        None \<Rightarrow> Inl TypeError
      | Some i \<Rightarrow>
          (case obj of
             PStr s \<Rightarrow> (if i < int (length s) then Inr (PStr [s ! nat i]) else Inl IndexError)
           | PList xs \<Rightarrow> (if i < int (length xs) then Inr (PStr (xs ! nat i)) else Inl IndexError)
           | PInt k \<Rightarrow> Inl TypeError))"

text \<open>
  The accesses that follow the first part of a field name, read from the left. The result is
  the object reached, or \<open>Inr (Inr rest)\<close> when an attribute access begins at \<open>rest\<close>.
\<close>

datatype access_state = Boundary | In_index str

fun access :: "unicode \<Rightarrow> pyval \<Rightarrow> access_state \<Rightarrow> str \<Rightarrow> exn + (pyval \<times> str option)" where
  "access U obj Boundary [] = Inr (obj, None)"
| "access U obj Boundary (c # cs) =
     (if c = ord (CHR ''.'') then
        (if takeWhile (\<lambda>d. d \<noteq> ord (CHR ''.'') \<and> d \<noteq> ord (CHR ''['')) cs = [] then Inl ValueError
         else Inr (obj, Some (c # cs)))
      else if c = ord (CHR ''['') then access U obj (In_index []) cs
      else Inl ValueError)"
| "access U obj (In_index name) [] = Inl ValueError"
| "access U obj (In_index name) (c # cs) =
     (if c = ord (CHR '']'') then
        (case get_integer U name of
           Inl e \<Rightarrow> Inl e
         | Inr index \<Rightarrow>
             (if name = [] then Inl ValueError
              else (case getitem obj index of
                      Inl e \<Rightarrow> Inl e
                    | Inr item \<Rightarrow> access U item Boundary cs)))
      else access U obj (In_index (name @ [c])) cs)"

text \<open>
  One replacement field: the first part of its name is looked up in the mapping (an empty or
  numeric first part is a positional field, which \<^verbatim>\<open>format_map\<close> refuses), the accesses are
  made, and the object is rendered.
\<close>

definition render_field ::
  "unicode \<Rightarrow> py_runtime \<Rightarrow> (str \<Rightarrow> pyval) \<Rightarrow> str \<Rightarrow> int option \<Rightarrow> str \<Rightarrow> exn + str"
where
  "render_field U rt mapping field_name conversion format_spec =
     (let first = takeWhile (\<lambda>d. d \<noteq> ord (CHR ''.'') \<and> d \<noteq> ord (CHR ''['')) field_name;
          rest = dropWhile (\<lambda>d. d \<noteq> ord (CHR ''.'') \<and> d \<noteq> ord (CHR ''['')) field_name
      in (case get_integer U first of
            Inl e \<Rightarrow> Inl e
          | Inr (Some i) \<Rightarrow> Inl ValueError
          | Inr None \<Rightarrow>
              (if first = [] then Inl ValueError
               else (case access U (mapping first) Boundary rest of
                       Inl e \<Rightarrow> Inl e
                     | Inr (obj, Some attr) \<Rightarrow> rt_attribute rt mapping obj attr conversion format_spec
                     | Inr (obj, None) \<Rightarrow>
                         (if conversion = None \<and> format_spec = [] then Inr (py_str rt obj)
                          else rt_format rt mapping obj conversion format_spec)))))"

subsection \<open>Scanning a format string\<close>

text \<open>
  \<^verbatim>\<open>str.format_map\<close> reads the format string once from the left and renders each
  replacement field as soon as its closing brace is read, so that the first error in reading
  order is the one raised. \<open>In_text\<close>: literal text; \<open>In_name\<close>: the name of a field;
  \<open>In_bracket\<close>: between \<open>[\<close> and \<open>]\<close> inside the name; \<open>In_conversion\<close>: after \<open>!\<close>;
  \<open>After_conversion\<close>: after the conversion character; \<open>In_spec\<close>: the format specification,
  with the number of braces open.
\<close>

datatype scan_state =
    In_text
  | In_name str
  | In_bracket str
  | In_conversion str
  | After_conversion str int
  | In_spec str "int option" str nat

fun scan ::
  "(str \<Rightarrow> int option \<Rightarrow> str \<Rightarrow> exn + str) \<Rightarrow> scan_state \<Rightarrow> str \<Rightarrow> str
     \<Rightarrow> exn + str"
where
  "scan render In_text out [] = Inr out"
| "scan render In_text out [c] =
     (if c = ord (CHR ''{'') \<or> c = ord (CHR ''}'') then Inl ValueError else Inr (out @ [c]))"
| "scan render In_text out (c # d # cs) =
     (if c = ord (CHR ''{'') \<or> c = ord (CHR ''}'') then
        (if d = c then scan render In_text (out @ [c]) cs
         else if c = ord (CHR ''}'') then Inl ValueError
         else scan render (In_name []) out (d # cs))
      else scan render In_text (out @ [c]) (d # cs))"
| "scan render (In_name name) out [] = Inl ValueError"
| "scan render (In_name name) out (c # cs) =
     (if c = ord (CHR ''{'') then Inl ValueError
      else if c = ord (CHR ''['') then scan render (In_bracket (name @ [c])) out cs
      else if c = ord (CHR ''}'') then
        (case render name None [] of
           Inl e \<Rightarrow> Inl e
         | Inr text \<Rightarrow> scan render In_text (out @ text) cs)
      else if c = ord (CHR '':'') then scan render (In_spec name None [] 1) out cs
      else if c = ord (CHR ''!'') then scan render (In_conversion name) out cs
      else scan render (In_name (name @ [c])) out cs)"
| "scan render (In_bracket name) out [] = Inl ValueError"
| "scan render (In_bracket name) out (c # cs) =
     (if c = ord (CHR '']'') then scan render (In_name (name @ [c])) out cs
      else scan render (In_bracket (name @ [c])) out cs)"
| "scan render (In_conversion name) out [] = Inl ValueError"
| "scan render (In_conversion name) out (c # cs) = scan render (After_conversion name c) out cs"
| "scan render (After_conversion name conv) out [] = Inl ValueError"
| "scan render (After_conversion name conv) out (c # cs) =
     (if c = ord (CHR ''}'') then
        (case render name (Some conv) [] of
           Inl e \<Rightarrow> Inl e
         | Inr text \<Rightarrow> scan render In_text (out @ text) cs)
      else if c = ord (CHR '':'') then scan render (In_spec name (Some conv) [] 1) out cs
      else Inl ValueError)"
| "scan render (In_spec name conv spec depth) out [] = Inl ValueError"
| "scan render (In_spec name conv spec depth) out (c # cs) =
     (if c = ord (CHR ''{'') then scan render (In_spec name conv (spec @ [c]) (Suc depth)) out cs
      else if c = ord (CHR ''}'') then
        (if depth = Suc 0 then
           (case render name conv spec of
              Inl e \<Rightarrow> Inl e
            | Inr text \<Rightarrow> scan render In_text (out @ text) cs)
         else scan render (In_spec name conv (spec @ [c]) (depth - 1)) out cs)
      else scan render (In_spec name conv (spec @ [c]) depth) out cs)"

definition format_map :: "unicode \<Rightarrow> py_runtime \<Rightarrow> str \<Rightarrow> (str \<Rightarrow> pyval) \<Rightarrow> exn + str" where
  "format_map U rt template mapping = scan (render_field U rt mapping) In_text [] template"

subsection \<open>The template\<close>

record email_template =
  tpl_subject :: str
  body :: str

text \<open>\<^verbatim>\<open>defaultdict(lambda: '', d)\<close> read at a key.\<close>

definition defaultdict_get :: "(str \<rightharpoonup> pyval) \<Rightarrow> str \<Rightarrow> pyval" where
  "defaultdict_get d k = (case d k of None \<Rightarrow> PStr [] | Some v \<Rightarrow> v)"

text \<open>The elements that \<^verbatim>\<open>for nr in value\<close> visits.\<close>

definition iterate :: "pyval \<Rightarrow> exn + str list" where
  "iterate v =
     (case v of
        PList xs \<Rightarrow> Inr xs
      | PStr s \<Rightarrow> Inr (map (\<lambda>c. [c]) s)
      | PInt i \<Rightarrow> Inl TypeError)"

definition newline :: str where
  "newline = [10]"

definition bullet_list :: "str list \<Rightarrow> str" where
  "bullet_list xs = join newline (map (\<lambda>nr. ascii ''  - '' @ nr) xs)"

definition brakujace_header :: str where
  "brakujace_header =
     [10] @ ascii ''Nie uda'' @ [322] @ ascii ''o si'' @ [281] @ ascii '' odnale'' @ [378, 263]
     @ ascii '' nast'' @ [281] @ ascii ''puj'' @ [261] @ ascii ''cych faktur:'' @ [10]"

text \<open>
  The three special treatments of \<^verbatim>\<open>EmailTemplate.format\<close>, each giving the dictionary
  after it: the list of invoice numbers, the information on the missing ones, the user name.
\<close>

definition add_lista :: "(str \<rightharpoonup> pyval) \<Rightarrow> (str \<rightharpoonup> pyval) \<Rightarrow> (str \<rightharpoonup> pyval)" where
  "add_lista kwargs format_dict =
     (case kwargs (ascii ''numery_faktur_z_kompensaty'') of
        Some (PList xs) \<Rightarrow> format_dict(ascii ''numery_faktur_z_kompensaty_lista'' \<mapsto> PStr (bullet_list xs))
      | _ \<Rightarrow> format_dict)"

definition add_brakujace ::
  "(str \<rightharpoonup> pyval) \<Rightarrow> (str \<rightharpoonup> pyval) \<Rightarrow> exn + (str \<rightharpoonup> pyval)"
where
  "add_brakujace kwargs format_dict =
     (case kwargs (ascii ''numery_brakujace'') of
        None \<Rightarrow> Inr (format_dict(ascii ''brakujace_faktury_info'' \<mapsto> PStr []))
      | Some v \<Rightarrow>
          (if truthy v then
             (case iterate v of
                Inl e \<Rightarrow> Inl e
              | Inr xs \<Rightarrow>
                  Inr (format_dict(ascii ''brakujace_faktury_info'' \<mapsto>
                         PStr (brakujace_header @ bullet_list xs))))
           else Inr (format_dict(ascii ''brakujace_faktury_info'' \<mapsto> PStr []))))"

definition add_nazwa_uzytkownika ::
  "(str \<rightharpoonup> pyval) \<Rightarrow> (str \<rightharpoonup> pyval) \<Rightarrow> exn + (str \<rightharpoonup> pyval)"
where
  "add_nazwa_uzytkownika kwargs format_dict =
     (if format_dict (ascii ''nazwa_uzytkownika'') = None then
        (case kwargs (ascii ''exchange_username'') of
           None \<Rightarrow> Inr format_dict
         | Some (PStr username) \<Rightarrow>
             Inr (format_dict(ascii ''nazwa_uzytkownika'' \<mapsto>
                    PStr (if ord (CHR ''@'') \<in> set username
                          then takeWhile (\<lambda>c. c \<noteq> ord (CHR ''@'')) username else username)))
         | Some (PInt i) \<Rightarrow> Inl TypeError
         | Some (PList xs) \<Rightarrow>
             (if ascii ''@'' \<in> set xs then Inl AttributeError
              else Inr (format_dict(ascii ''nazwa_uzytkownika'' \<mapsto> PList xs))))
      else Inr format_dict)"

text \<open>
  \<^verbatim>\<open>EmailTemplate.format\<close>: the subject is formatted before the body. The method builds a
  new template; \<open>self\<close> is only read.
\<close>

definition email_template_format ::
  "unicode \<Rightarrow> py_runtime \<Rightarrow> email_template \<Rightarrow> (str \<rightharpoonup> pyval) \<Rightarrow> exn + email_template"
where
  "email_template_format U rt self kwargs =
     (case add_brakujace kwargs (add_lista kwargs kwargs) of
        Inl e \<Rightarrow> Inl e
      | Inr d2 \<Rightarrow>
          (case add_nazwa_uzytkownika kwargs d2 of
             Inl e \<Rightarrow> Inl e
           | Inr format_dict \<Rightarrow>
               (case format_map U rt (tpl_subject self) (defaultdict_get format_dict) of
                  Inl e \<Rightarrow> Inl e
                | Inr new_subject \<Rightarrow>
                    (case format_map U rt (body self) (defaultdict_get format_dict) of
                       Inl e \<Rightarrow> Inl e
                     | Inr new_body \<Rightarrow> Inr \<lparr>tpl_subject = new_subject, body = new_body\<rparr>))))"

subsection \<open>Plain templates, and auxiliary notions for the properties\<close>



definition simple_runtime :: py_runtime where
  "simple_runtime =
     \<lparr>rt_str_list = (\<lambda>xs. ascii ''['' @ join (ascii '', '') (map (\<lambda>x. [39] @ x @ [39]) xs) @ ascii '']''),
      rt_attribute = (\<lambda>mapping obj attr conv spec. Inl AttributeError),
      rt_format = (\<lambda>mapping obj conv spec. Inl ValueError)\<rparr>"




section \<open>PDFProcessor (pdf_processor.py)\<close>

text \<open>White space: what \<^verbatim>\<open>str.split()\<close>, \<^verbatim>\<open>str.strip()\<close> and \<^verbatim>\<open>\s\<close> take as such.\<close>

definition is_space :: "unicode \<Rightarrow> int \<Rightarrow> bool" where
  "is_space U c = u_isspace U c"

definition strip :: "unicode \<Rightarrow> str \<Rightarrow> str" where
  "strip U s = rev (dropWhile (is_space U) (rev (dropWhile (is_space U) s)))"

text \<open>\<^verbatim>\<open>text.split()\<close>, with the word being read as accumulator.\<close>

fun split_words :: "unicode \<Rightarrow> str \<Rightarrow> str \<Rightarrow> str list" where
  "split_words U word [] = (if word = [] then [] else [word])"
| "split_words U word (c # cs) =
     (if is_space U c
      then (if word = [] then split_words U [] cs else word # split_words U [] cs)
      else split_words U (word @ [c]) cs)"

text \<open>\<^verbatim>\<open>PDFProcessor._extract_text_from_page\<close>.\<close>

definition extract_text_from_page :: "unicode \<Rightarrow> page \<Rightarrow> str" where
  "extract_text_from_page U p =
     (case p of
        Page_raises \<Rightarrow> []
      | Page_text text \<Rightarrow> (if text \<noteq> [] then join (ascii '' '') (split_words U [] text) else []))"

text \<open>
  \<^verbatim>\<open>re.search(r'(\s+\d{1,2})$', cleaned)\<close>, as the length of its group. At a position the
  matcher takes the white space that stands there, all of it first and then less, never none;
  after it two decimal digits, or else one; and \<open>$\<close> holds at the end of the string and before
  a line feed that ends it. The first position of the string at which this succeeds is the
  match.
\<close>

definition at_end :: "str \<Rightarrow> bool" where
  "at_end t = (t = [] \<or> t = [10])"

definition digits_then_end :: "unicode \<Rightarrow> str \<Rightarrow> nat option" where
  "digits_then_end U t =
     (if 2 \<le> length t \<and> re_digit U (t ! 0) \<and> re_digit U (t ! 1) \<and> at_end (drop 2 t) then Some 2
      else if 1 \<le> length t \<and> re_digit U (t ! 0) \<and> at_end (drop 1 t) then Some 1
      else None)"

fun spaces_then_digits :: "unicode \<Rightarrow> nat \<Rightarrow> str \<Rightarrow> nat option" where
  "spaces_then_digits U 0 t = None"
| "spaces_then_digits U (Suc k) t =
     (case digits_then_end U (drop (Suc k) t) of
        Some d \<Rightarrow> Some (Suc k + d)
      | None \<Rightarrow> spaces_then_digits U k t)"

fun search_ending :: "unicode \<Rightarrow> str \<Rightarrow> nat option" where
  "search_ending U [] = None"
| "search_ending U (c # cs) =
     (case spaces_then_digits U (length (takeWhile (is_space U) (c # cs))) (c # cs) of
        Some len \<Rightarrow> Some len
      | None \<Rightarrow> search_ending U cs)"

text \<open>
  \<^verbatim>\<open>PDFProcessor._clean_invoice_number\<close> on a string:
  \<^verbatim>\<open>cleaned[:-len(match_ending.group(1))]\<close> drops as many characters from the end as the
  group has.
\<close>

definition clean_str :: "unicode \<Rightarrow> str \<Rightarrow> str" where
  "clean_str U raw_number =
     (let cleaned = strip U raw_number
      in strip U
           (case search_ending U cleaned of
              Some len \<Rightarrow> take (length cleaned - len) cleaned
            | None \<Rightarrow> cleaned))"

text \<open>
  What \<^verbatim>\<open>re.findall\<close> returns for one match: a string, or a tuple when the pattern has
  several groups; \<^verbatim>\<open>strip\<close> does not exist on a tuple.
\<close>

datatype re_match = Match_str str | Match_tuple "str list"

definition clean_invoice_number :: "unicode \<Rightarrow> re_match \<Rightarrow> exn + str" where
  "clean_invoice_number U raw_number =
     (case raw_number of
        Match_str s \<Rightarrow> Inr (clean_str U s)
      | Match_tuple groups \<Rightarrow> Inl AttributeError)"

text \<open>
  A Python \<^verbatim>\<open>set\<close> of strings is modelled by the list of its elements in the order of their
  insertion. The order in which a set is iterated depends on the hashes of its elements,
  which change from one process to the next: it is a parameter \<open>iter_order\<close>, a function
  that rearranges the elements. \<open>is_iteration\<close> says that it rearranges and nothing else.
\<close>

definition set_add :: "str list \<Rightarrow> str \<Rightarrow> str list" where
  "set_add s x = (if x \<in> set s then s else s @ [x])"

definition set_update :: "str list \<Rightarrow> str list \<Rightarrow> str list" where
  "set_update s xs = foldl set_add s xs"

definition is_iteration :: "(str list \<Rightarrow> str list) \<Rightarrow> bool" where
  "is_iteration iter_order = (\<forall>xs. distinct xs \<longrightarrow> mset (iter_order xs) = mset xs)"

text \<open>
  The loop of \<^verbatim>\<open>_find_invoice_numbers_in_text\<close> over the matches: an exception of the
  cleaning ends it with the numbers collected so far.
\<close>

fun collect_matches :: "unicode \<Rightarrow> str list \<Rightarrow> re_match list \<Rightarrow> str list" where
  "collect_matches U invoice_numbers [] = invoice_numbers"
| "collect_matches U invoice_numbers (raw_number # rest) =
     (case clean_invoice_number U raw_number of
        Inl e \<Rightarrow> invoice_numbers
      | Inr cleaned_number \<Rightarrow>
          (if cleaned_number \<noteq> []
           then collect_matches U (set_add invoice_numbers cleaned_number) rest
           else collect_matches U invoice_numbers rest))"

text \<open>
  \<^verbatim>\<open>PDFProcessor._find_invoice_numbers_in_text\<close>. The regular expressions of Python are a
  parameter: \<open>re_findall pattern text\<close> is \<^verbatim>\<open>re.findall(pattern, text, re.IGNORECASE)\<close>,
  the matches or the exception raised (\<open>ReError\<close> for a pattern that does not compile).
\<close>

definition find_invoice_numbers_in_text ::
  "unicode \<Rightarrow> (str \<Rightarrow> str \<Rightarrow> exn + re_match list) \<Rightarrow> str \<Rightarrow> str \<Rightarrow> str list"
where
  "find_invoice_numbers_in_text U re_findall text pattern =
     (case re_findall pattern text of
        Inl e \<Rightarrow> []
      | Inr matches \<Rightarrow> collect_matches U [] matches)"

text \<open>The loop of \<^verbatim>\<open>extract_invoice_numbers\<close> over the pages.\<close>

fun pages_loop ::
  "unicode \<Rightarrow> (str \<Rightarrow> str \<Rightarrow> exn + re_match list) \<Rightarrow> (str list \<Rightarrow> str list) \<Rightarrow> stop_event
     \<Rightarrow> str \<Rightarrow> page list \<Rightarrow> str list \<Rightarrow> nat \<Rightarrow> str list outcome"
where
  "pages_loop U re_findall iter_order stop pattern [] invoice_numbers n =
     (Inr (iter_order invoice_numbers), n)"
| "pages_loop U re_findall iter_order stop pattern (p # ps) invoice_numbers n =
     (if stop n then (Inl OperationCancelledError, Suc n)
      else (let text = extract_text_from_page U p
            in if text \<noteq> []
               then pages_loop U re_findall iter_order stop pattern ps
                      (set_update invoice_numbers
                         (iter_order (find_invoice_numbers_in_text U re_findall text pattern)))
                      (Suc n)
               else pages_loop U re_findall iter_order stop pattern ps invoice_numbers (Suc n)))"

text \<open>
  \<^verbatim>\<open>PDFProcessor.extract_invoice_numbers\<close>. A cancellation is raised again; every other
  exception, that of a document the reader cannot open among them, becomes
  \<open>PDFProcessingError\<close>.
\<close>

definition extract_invoice_numbers ::
  "unicode \<Rightarrow> (str \<Rightarrow> str \<Rightarrow> exn + re_match list) \<Rightarrow> (str list \<Rightarrow> str list) \<Rightarrow> stop_event
     \<Rightarrow> pdf_content \<Rightarrow> str \<Rightarrow> nat \<Rightarrow> str list outcome"
where
  "extract_invoice_numbers U re_findall iter_order stop content pattern n =
     (if stop n then (Inl OperationCancelledError, Suc n)
      else if pattern = [] then (Inl PDFProcessingError, Suc n)
      else (case content of
              Unreadable \<Rightarrow> (Inl PDFProcessingError, Suc n)
            | Pdf pages \<Rightarrow> pages_loop U re_findall iter_order stop pattern pages [] (Suc n)))"

section \<open>Configuration (config.py)\<close>

record app_config =
  exchange_username :: str
  ksiegowa_glowny :: str
  ksiegowa_2 :: "str option"
  ksiegowa_3 :: "str option"
  powiadomienia_brak_pdf :: "str list"
  powiadomienia_czesciowe :: "str list"
  przetworzone :: str

definition get_ksiegowa_emails :: "app_config \<Rightarrow> str list" where
  "get_ksiegowa_emails config =
     [ksiegowa_glowny config]
     @ (case ksiegowa_2 config of None \<Rightarrow> [] | Some e \<Rightarrow> (if e \<noteq> [] then [e] else []))
     @ (case ksiegowa_3 config of None \<Rightarrow> [] | Some e \<Rightarrow> (if e \<noteq> [] then [e] else []))"

definition get_notification_emails_for_missing_pdf :: "app_config \<Rightarrow> str list" where
  "get_notification_emails_for_missing_pdf config =
     (if powiadomienia_brak_pdf config \<noteq> [] then powiadomienia_brak_pdf config
      else if exchange_username config \<noteq> [] then [exchange_username config] else [])"

definition get_notification_emails_for_partial_results :: "app_config \<Rightarrow> str list" where
  "get_notification_emails_for_partial_results config =
     (if powiadomienia_czesciowe config \<noteq> [] then powiadomienia_czesciowe config
      else if exchange_username config \<noteq> [] then [exchange_username config] else [])"

record email_template_collection =
  email_do_ksiegowej :: email_template
  powiadomienie_brak_faktur_w_pdf :: email_template
  powiadomienie_czesciowo_znalezione :: email_template

section \<open>The server, and what a run changes on it\<close>

text \<open>
  What the run cannot decide is the environment: the account, the clock, the faults of the
  two searches, whether the \<open>k\<close>-th \<^verbatim>\<open>send_and_save\<close> raises, whether \<^verbatim>\<open>move\<close> and
  \<^verbatim>\<open>save\<close> raise; and the parts of Python taken as parameters.
\<close>

record environment =
  env_unicode :: unicode
  env_account :: account
  env_now :: int
  main_fault :: "nat option"
  invoice_faults :: "nat \<Rightarrow> nat option"
  send_raises :: "nat \<Rightarrow> bool"
  move_raises :: bool
  save_raises :: bool
  strftime :: "str \<Rightarrow> int \<Rightarrow> str"
  env_findall :: "str \<Rightarrow> str \<Rightarrow> exn + re_match list"
  env_iter_order :: "str list \<Rightarrow> str list"
  env_runtime :: py_runtime

text \<open>
  The state of the store is the list of the calls that changed it, in order: a message sent,
  a message moved to a folder, a message saved as read. \<open>send_attempts\<close> counts the calls of
  \<^verbatim>\<open>send_and_save\<close>, whether they raised or not.
\<close>

datatype store_call =
    Sent "str list" str str "attachment list"
  | Moved email folder
  | Marked_read email

record world =
  calls :: "store_call list"
  send_attempts :: nat

definition is_sent :: "store_call \<Rightarrow> bool" where
  "is_sent c = (case c of Sent recipients subj text atts \<Rightarrow> True | _ \<Rightarrow> False)"

section \<open>ExchangeClient: sending, marking, moving, and the search for the compensation\<close>

definition send_email ::
  "environment \<Rightarrow> str list \<Rightarrow> str \<Rightarrow> str \<Rightarrow> attachment list \<Rightarrow> world \<Rightarrow> bool \<times> world"
where
  "send_email env recipients subj text atts w =
     (if recipients = [] then (False, w)
      else if send_raises env (send_attempts w)
        then (False, w\<lparr>send_attempts := Suc (send_attempts w)\<rparr>)
      else (True, w\<lparr>calls := calls w @ [Sent recipients subj text atts],
                     send_attempts := Suc (send_attempts w)\<rparr>))"

definition mark_as_read :: "environment \<Rightarrow> email \<Rightarrow> world \<Rightarrow> bool \<times> world" where
  "mark_as_read env e w =
     (if is_read e then (True, w)
      else if save_raises env then (False, w)
      else (True, w\<lparr>calls := calls w @ [Marked_read e]\<rparr>))"

definition move_email :: "environment \<Rightarrow> email \<Rightarrow> str \<Rightarrow> world \<Rightarrow> bool \<times> world" where
  "move_email env e destination_folder_path w =
     (case get_folder_by_path (env_unicode env) (env_account env) destination_folder_path of
        Inl x \<Rightarrow> (False, w)
      | Inr None \<Rightarrow> (False, w)
      | Inr (Some destination_folder) \<Rightarrow>
          (if move_raises env then (False, w)
           else (True, w\<lparr>calls := calls w @ [Moved e destination_folder]\<rparr>)))"

text \<open>\<^verbatim>\<open>ExchangeClient._attachment_matches_criteria\<close>.\<close>

definition attachment_matches_criteria :: "unicode \<Rightarrow> attachment \<Rightarrow> attachment_criteria \<Rightarrow> bool" where
  "attachment_matches_criteria U a criteria =
     (let att_name_lower = lower U (att_name a)
      in if name_contains criteria \<noteq> [] \<and> \<not> str_in (lower U (name_contains criteria)) att_name_lower
         then False
         else if extension criteria \<noteq> []
                 \<and> \<not> endswith att_name_lower (ascii ''.'' @ lower U (extension criteria))
         then False
         else True)"

text \<open>The loops of \<^verbatim>\<open>find_compensation_email\<close> over the attachments and the messages.\<close>

fun compensation_attachments ::
  "unicode \<Rightarrow> stop_event \<Rightarrow> attachment_criteria \<Rightarrow> attachment list \<Rightarrow> nat \<Rightarrow> attachment option outcome"
where
  "compensation_attachments U stop criteria [] n = (Inr None, n)"
| "compensation_attachments U stop criteria (a # as) n =
     (if stop n then (Inl OperationCancelledError, Suc n)
      else if is_file_attachment a \<and> attachment_matches_criteria U a criteria
        then (Inr (Some a), Suc n)
      else compensation_attachments U stop criteria as (Suc n))"

fun compensation_emails ::
  "unicode \<Rightarrow> stop_event \<Rightarrow> search_criteria \<Rightarrow> email list \<Rightarrow> nat \<Rightarrow> (email \<times> attachment) option outcome"
where
  "compensation_emails U stop criteria [] n = (Inr None, n)"
| "compensation_emails U stop criteria (e # es) n =
     (if stop n then (Inl OperationCancelledError, Suc n)
      else if subject_contains (main_email criteria) \<noteq> []
              \<and> \<not> str_in (lower U (subject_contains (main_email criteria))) (lower U (subject e))
        then compensation_emails U stop criteria es (Suc n)
      else if sender_contains (main_email criteria) \<noteq> []
              \<and> \<not> str_in (lower U (sender_contains (main_email criteria))) (lower U (sender_address e))
        then compensation_emails U stop criteria es (Suc n)
      else if attachments e = [] then compensation_emails U stop criteria es (Suc n)
      else (case compensation_attachments U stop (main_attachment criteria) (attachments e) (Suc n) of
              (Inl x, n') \<Rightarrow> (Inl x, n')
            | (Inr (Some a), n') \<Rightarrow> (Inr (Some (e, a)), n')
            | (Inr None, n') \<Rightarrow> compensation_emails U stop criteria es n'))"

text \<open>
  The query of \<^verbatim>\<open>find_compensation_email\<close>: the two filters on attachments and on unread
  messages are set when the criteria ask for them.
\<close>

definition main_filter :: "folder \<Rightarrow> main_email_criteria \<Rightarrow> int \<Rightarrow> int \<Rightarrow> email list" where
  "main_filter f criteria start_datetime end_datetime =
     sort_key (\<lambda>e. - datetime_received e)
       (filter (\<lambda>e. start_datetime \<le> datetime_received e \<and> datetime_received e < end_datetime
                    \<and> (if require_attachments criteria then has_attachments e else True)
                    \<and> (if only_unread criteria then \<not> is_read e else True))
          (items f))"

text \<open>
  \<^verbatim>\<open>ExchangeClient.find_compensation_email\<close>: \<open>None\<close> is the pair \<^verbatim>\<open>(None, None)\<close>. The folder
  is resolved and the window computed outside the \<^verbatim>\<open>try\<close>.
\<close>

definition find_compensation_email ::
  "environment \<Rightarrow> search_criteria \<Rightarrow> stop_event \<Rightarrow> nat \<Rightarrow> (email \<times> attachment) option outcome"
where
  "find_compensation_email env criteria stop n =
     (if stop n then (Inl OperationCancelledError, Suc n)
      else (case get_folder_by_path (env_unicode env) (env_account env) (main_folder_path (main_email criteria)) of
              Inl x \<Rightarrow> (Inl x, Suc n)
            | Inr None \<Rightarrow> (Inl FolderNotFoundError, Suc n)
            | Inr (Some f) \<Rightarrow>
                (let end_datetime = env_now env
                 in (case timedelta_days (months_back_compensation criteria * 31) of
                       Inl x \<Rightarrow> (Inl x, Suc n)
                     | Inr delta \<Rightarrow>
                         (case datetime_plus end_datetime (- delta) of
                            Inl x \<Rightarrow> (Inl x, Suc n)
                          | Inr start_datetime \<Rightarrow>
                              compensation_emails (env_unicode env) stop criteria
                                (fetched (main_fault env)
                                   (main_filter f (main_email criteria) start_datetime
                                      end_datetime))
                                (Suc n))))))"

section \<open>EmailService: the three messages and the archiving\<close>

text \<open>The loop of \<^verbatim>\<open>send_compensation_email_to_accounting\<close> that gathers the attachments.\<close>

fun gather_attachments ::
  "unicode \<Rightarrow> stop_event \<Rightarrow> attachment list \<Rightarrow> attachment list \<Rightarrow> str list \<Rightarrow> nat
     \<Rightarrow> attachment list outcome"
where
  "gather_attachments U stop [] atts added_names n = (Inr atts, n)"
| "gather_attachments U stop (invoice_attachment # rest) atts added_names n =
     (if stop n then (Inl OperationCancelledError, Suc n)
      else if lower U (att_name invoice_attachment) \<in> set added_names
        then gather_attachments U stop rest atts added_names (Suc n)
      else gather_attachments U stop rest (atts @ [invoice_attachment])
             (added_names @ [lower U (att_name invoice_attachment)]) (Suc n))"

definition accounting_template_data ::
  "unicode \<Rightarrow> app_config \<Rightarrow> email \<Rightarrow> str list \<Rightarrow> attachment list \<Rightarrow> (str \<rightharpoonup> pyval)"
where
  "accounting_template_data U config original_email extracted_data found_invoices =
     (let template_data =
            [ascii ''temat_kompensaty'' \<mapsto> PStr (subject original_email),
             ascii ''liczba_faktur_z_kompensaty'' \<mapsto> PInt (int (length extracted_data)),
             ascii ''numery_faktur_z_kompensaty'' \<mapsto> PList extracted_data,
             ascii ''liczba_znalezionych_faktur_zal'' \<mapsto> PInt (int (length found_invoices)),
             ascii ''exchange_username'' \<mapsto> PStr (exchange_username config)]
      in if length found_invoices < length extracted_data
         then template_data(ascii ''numery_brakujace'' \<mapsto>
                PList (find_missing_invoices U extracted_data found_invoices))
         else template_data)"

text \<open>
  \<^verbatim>\<open>EmailService.send_compensation_email_to_accounting\<close>: a cancellation is raised again, any
  other exception (that of the template among them) gives \<open>False\<close>.
\<close>

definition send_compensation_email_to_accounting ::
  "environment \<Rightarrow> app_config \<Rightarrow> email_template_collection \<Rightarrow> attachment \<Rightarrow> attachment list
     \<Rightarrow> str list \<Rightarrow> email \<Rightarrow> stop_event \<Rightarrow> nat \<Rightarrow> world \<Rightarrow> (exn + bool) \<times> nat \<times> world"
where
  "send_compensation_email_to_accounting env config templates original_pdf found_invoices
       extracted_data original_email stop n w =
     (if stop n then (Inl OperationCancelledError, Suc n, w)
      else (let recipients = get_ksiegowa_emails config
            in if recipients = [] then (Inr False, Suc n, w)
               else (case email_template_format (env_unicode env) (env_runtime env) (email_do_ksiegowej templates)
                            (accounting_template_data (env_unicode env) config original_email extracted_data
                               found_invoices) of
                       Inl x \<Rightarrow> (Inr False, Suc n, w)
                     | Inr formatted_template \<Rightarrow>
                         (case gather_attachments (env_unicode env) stop found_invoices [original_pdf]
                                 [lower (env_unicode env) (att_name original_pdf)] (Suc n) of
                            (Inl x, n') \<Rightarrow> (Inl x, n', w)
                          | (Inr atts, n') \<Rightarrow>
                              (case send_email env recipients (tpl_subject formatted_template)
                                      (body formatted_template) atts w of
                                 (success, w') \<Rightarrow> (Inr success, n', w'))))))"

text \<open>\<^verbatim>\<open>EmailService.send_missing_pdf_notification\<close>.\<close>

definition send_missing_pdf_notification ::
  "environment \<Rightarrow> app_config \<Rightarrow> email_template_collection \<Rightarrow> email \<Rightarrow> str \<Rightarrow> stop_event \<Rightarrow> nat
     \<Rightarrow> world \<Rightarrow> (exn + bool) \<times> nat \<times> world"
where
  "send_missing_pdf_notification env config templates original_email pdf_filename stop n w =
     (if stop n then (Inl OperationCancelledError, Suc n, w)
      else (let recipients = get_notification_emails_for_missing_pdf config
            in if recipients = [] then (Inr False, Suc n, w)
               else (case email_template_format (env_unicode env) (env_runtime env)
                            (powiadomienie_brak_faktur_w_pdf templates)
                            [ascii ''temat_kompensaty'' \<mapsto> PStr (subject original_email),
                             ascii ''nadawca_kompensaty'' \<mapsto> PStr (sender_address original_email),
                             ascii ''data_kompensaty'' \<mapsto>
                                PStr (strftime env (ascii ''%Y-%m-%d %H:%M:%S %Z'')
                                        (datetime_received original_email)),
                             ascii ''nazwa_pliku_pdf_kompensaty'' \<mapsto> PStr pdf_filename,
                             ascii ''exchange_username'' \<mapsto> PStr (exchange_username config)] of
                       Inl x \<Rightarrow> (Inr False, Suc n, w)
                     | Inr formatted_template \<Rightarrow>
                         (case send_email env recipients (tpl_subject formatted_template)
                                 (body formatted_template) [] w of
                            (success, w') \<Rightarrow> (Inr success, Suc n, w')))))"

text \<open>\<^verbatim>\<open>EmailService.send_partial_results_notification\<close>.\<close>

definition send_partial_results_notification ::
  "environment \<Rightarrow> app_config \<Rightarrow> email_template_collection \<Rightarrow> email \<Rightarrow> str list
     \<Rightarrow> attachment list \<Rightarrow> stop_event \<Rightarrow> nat \<Rightarrow> world \<Rightarrow> (exn + bool) \<times> nat \<times> world"
where
  "send_partial_results_notification env config templates original_email extracted_data
       found_attachments stop n w =
     (if stop n then (Inl OperationCancelledError, Suc n, w)
      else (let recipients = get_notification_emails_for_partial_results config
            in if recipients = [] then (Inr False, Suc n, w)
               else (case email_template_format (env_unicode env) (env_runtime env)
                            (powiadomienie_czesciowo_znalezione templates)
                            [ascii ''temat_kompensaty'' \<mapsto> PStr (subject original_email),
                             ascii ''data_kompensaty'' \<mapsto>
                                PStr (strftime env (ascii ''%Y-%m-%d %H:%M'')
                                        (datetime_received original_email)),
                             ascii ''liczba_oczekiwanych'' \<mapsto> PInt (int (length extracted_data)),
                             ascii ''numery_faktur_z_kompensaty'' \<mapsto> PList extracted_data,
                             ascii ''liczba_znalezionych'' \<mapsto> PInt (int (length found_attachments)),
                             ascii ''numery_brakujace'' \<mapsto>
                                PList (find_missing_invoices (env_unicode env) extracted_data found_attachments),
                             ascii ''exchange_username'' \<mapsto> PStr (exchange_username config)] of
                       Inl x \<Rightarrow> (Inr False, Suc n, w)
                     | Inr formatted_template \<Rightarrow>
                         (case send_email env recipients (tpl_subject formatted_template)
                                 (body formatted_template) [] w of
                            (success, w') \<Rightarrow> (Inr success, Suc n, w')))))"

text \<open>
  \<^verbatim>\<open>EmailService.move_email_to_processed_folder\<close>: the message is marked as read when it
  could not be moved. (\<^verbatim>\<open>move_email\<close> raises nothing, so the \<^verbatim>\<open>except\<close> of the method is
  never entered.)
\<close>

definition move_email_to_processed_folder ::
  "environment \<Rightarrow> app_config \<Rightarrow> email \<Rightarrow> world \<Rightarrow> bool \<times> world"
where
  "move_email_to_processed_folder env config e w =
     (case move_email env e (przetworzone config) w of
        (success, w') \<Rightarrow>
          (if success then (True, w')
           else (case mark_as_read env e w' of (marked, w'') \<Rightarrow> (False, w''))))"

section \<open>EmailProcessor.process_emails (email_processor.py)\<close>

text \<open>
  The messages of the result, one constructor for each text of the source:
  \<open>No_source\<close> "Nie znaleziono glownego emaila z kompensata zgodnie z kryteriami";
  \<open>No_data\<close> "Nie udalo sie wyekstrahowac danych z PDF. Wyslano powiadomienie.";
  \<open>Done found expected\<close> "Przetwarzanie zakonczone pomyslnie. Wyslano email z found/expected
  fakturami."; \<open>Delivery_failed\<close> "Blad wysylania emaila do ksiegowej. Email nie zostal
  przeniesiony."; \<open>Cancelled\<close> "Przetwarzanie anulowane przez uzytkownika";
  \<open>Critical e\<close> "Blad krytyczny: e".
\<close>

datatype outcome_message =
    No_source
  | No_data
  | Done nat nat
  | Delivery_failed
  | Cancelled
  | Critical exn

record processing_result =
  success :: bool
  message :: outcome_message
  email_subject :: "str option"
  extracted_data :: "str list"
  found_attachments_count :: nat
  missing_invoices :: "str list"

definition failure :: "outcome_message \<Rightarrow> processing_result" where
  "failure m =
     \<lparr>success = False, message = m, email_subject = None, extracted_data = [],
      found_attachments_count = 0, missing_invoices = []\<rparr>"

text \<open>The two \<^verbatim>\<open>except\<close> clauses of \<^verbatim>\<open>process_emails\<close>.\<close>

definition handle_exn :: "exn \<Rightarrow> processing_result" where
  "handle_exn x = (if x = OperationCancelledError then failure Cancelled else failure (Critical x))"

text \<open>\<^verbatim>\<open>EmailProcessor._handle_no_data_extracted\<close>.\<close>

definition handle_no_data_extracted ::
  "environment \<Rightarrow> app_config \<Rightarrow> email_template_collection \<Rightarrow> email \<Rightarrow> attachment \<Rightarrow> stop_event
     \<Rightarrow> nat \<Rightarrow> world \<Rightarrow> (exn + processing_result) \<times> nat \<times> world"
where
  "handle_no_data_extracted env config templates compensation_email pdf_attachment stop n w =
     (case send_missing_pdf_notification env config templates compensation_email
             (att_name pdf_attachment) stop n w of
        (Inl x, n', w') \<Rightarrow> (Inl x, n', w')
      | (Inr sent_ok, n', w') \<Rightarrow>
          (case move_email_to_processed_folder env config compensation_email w' of
             (moved, w'') \<Rightarrow>
               (Inr ((failure No_data)\<lparr>email_subject := Some (subject compensation_email)\<rparr>),
                n', w'')))"

text \<open>
  Step 6 of \<^verbatim>\<open>process_emails\<close> and the result it builds, given what the delivery of step 5
  returned.
\<close>

definition archive_and_report ::
  "environment \<Rightarrow> app_config \<Rightarrow> bool \<Rightarrow> email \<Rightarrow> str list \<Rightarrow> attachment list \<Rightarrow> world
     \<Rightarrow> processing_result \<times> world"
where
  "archive_and_report env config email_sent compensation_email extracted found_invoices w =
     (let (result_message, w') =
            (if email_sent
             then (case move_email_to_processed_folder env config compensation_email w of
                     (moved, w') \<Rightarrow> (Done (length found_invoices) (length extracted), w'))
             else (Delivery_failed, w))
      in (\<lparr>success = email_sent, message = result_message,
           email_subject = Some (subject compensation_email), extracted_data = extracted,
           found_attachments_count = length found_invoices,
           missing_invoices = find_missing_invoices (env_unicode env) extracted found_invoices\<rparr>, w'))"

text \<open>Steps 4 to 6: the partial notification when a file is missing, the delivery, the rest.\<close>

definition notify_deliver_archive ::
  "environment \<Rightarrow> app_config \<Rightarrow> email_template_collection \<Rightarrow> email \<Rightarrow> attachment \<Rightarrow> str list
     \<Rightarrow> attachment list \<Rightarrow> stop_event \<Rightarrow> nat \<Rightarrow> world \<Rightarrow> (exn + processing_result) \<times> nat \<times> world"
where
  "notify_deliver_archive env config templates compensation_email pdf_attachment extracted
       found_invoices stop n w =
     (case (if length found_invoices < length extracted
            then send_partial_results_notification env config templates compensation_email
                   extracted found_invoices stop n w
            else (Inr True, n, w)) of
        (Inl x, n4, w4) \<Rightarrow> (Inl x, n4, w4)
      | (Inr notified, n4, w4) \<Rightarrow>
          (case send_compensation_email_to_accounting env config templates pdf_attachment
                  found_invoices extracted compensation_email stop n4 w4 of
             (Inl x, n5, w5) \<Rightarrow> (Inl x, n5, w5)
           | (Inr email_sent, n5, w5) \<Rightarrow>
               (case archive_and_report env config email_sent compensation_email extracted
                       found_invoices w5 of
                  (result, w6) \<Rightarrow> (Inr result, n5, w6))))"

text \<open>
  \<^verbatim>\<open>EmailProcessor.process_emails\<close>, steps 1 to 3 and the handling of the exceptions: every
  exception raised below ends the run with a failure, and what was done on the store remains.
\<close>

definition process_steps ::
  "environment \<Rightarrow> app_config \<Rightarrow> email_template_collection \<Rightarrow> search_criteria \<Rightarrow> stop_event \<Rightarrow> nat
     \<Rightarrow> world \<Rightarrow> (exn + processing_result) \<times> nat \<times> world"
where
  "process_steps env config templates criteria stop n w =
     (if stop n then (Inl OperationCancelledError, Suc n, w)
      else (case find_compensation_email env criteria stop (Suc n) of
              (Inl x, n1) \<Rightarrow> (Inl x, n1, w)
            | (Inr None, n1) \<Rightarrow> (Inr (failure No_source), n1, w)
            | (Inr (Some (compensation_email, pdf_attachment)), n1) \<Rightarrow>
                (case extract_invoice_numbers (env_unicode env) (env_findall env) (env_iter_order env) stop
                        (att_content pdf_attachment) (regex_pattern (extraction criteria)) n1 of
                   (Inl x, n2) \<Rightarrow> (Inl x, n2, w)
                 | (Inr extracted, n2) \<Rightarrow>
                     (if extracted = []
                      then handle_no_data_extracted env config templates compensation_email
                             pdf_attachment stop n2 w
                      else (case find_related_invoices (env_unicode env) stop (invoice_faults env) (env_account env)
                                   extracted (datetime_received compensation_email) criteria n2 of
                              (Inl x, n3) \<Rightarrow> (Inl x, n3, w)
                            | (Inr found_invoices, n3) \<Rightarrow>
                                notify_deliver_archive env config templates compensation_email
                                  pdf_attachment extracted found_invoices stop n3 w)))))"

definition process_emails ::
  "environment \<Rightarrow> app_config \<Rightarrow> email_template_collection \<Rightarrow> search_criteria \<Rightarrow> stop_event \<Rightarrow> nat
     \<Rightarrow> world \<Rightarrow> processing_result \<times> nat \<times> world"
where
  "process_emails env config templates criteria stop n w =
     (case process_steps env config templates criteria stop n w of
        (Inl x, n', w') \<Rightarrow> (handle_exn x, n', w')
      | (Inr result, n', w') \<Rightarrow> (result, n', w'))"

section \<open>Concrete stores and criteria for the worked cases\<close>

definition file_attachment :: "str \<Rightarrow> attachment" where
  "file_attachment name = \<lparr>att_name = name, is_file_attachment = True, att_content = Pdf []\<rparr>"

definition message_at :: "int \<Rightarrow> attachment list \<Rightarrow> email" where
  "message_at t atts =
     \<lparr>subject = ascii ''Faktura'', sender_address = ascii ''dostawca@example.com'',
      datetime_received = t, has_attachments = True, is_read = False, attachments = atts\<rparr>"

definition not_cancelled :: stop_event where
  "not_cancelled = (\<lambda>k. False)"

definition no_faults :: "nat \<Rightarrow> nat option" where
  "no_faults = (\<lambda>i. None)"

definition backslash :: str where
  "backslash = [92]"

text \<open>The default values of the dataclasses of models.py.\<close>

definition default_criteria :: search_criteria where
  "default_criteria =
     \<lparr>main_email =
        \<lparr>main_folder_path = ascii ''Skrzynka odbiorcza/Kompensaty Quadra'', subject_contains = [],
         sender_contains = [], only_unread = True, require_attachments = True\<rparr>,
      main_attachment = \<lparr>name_contains = ascii ''kompensata'', extension = ascii ''pdf''\<rparr>,
      extraction =
        \<lparr>regex_pattern =
           backslash @ ascii ''b(?:F/M|QN|F/)'' @ backslash @ ascii ''s*['' @ backslash @ ascii ''w'' @ backslash
           @ ascii ''s'' @ backslash @ ascii ''/-]*'' @ backslash @ ascii ''d['' @ backslash @ ascii ''w'' @ backslash
           @ ascii ''s'' @ backslash @ ascii ''/-]*'' @ backslash @ ascii ''b''\<rparr>,
      related_emails =
        \<lparr>related_folder_path = ascii ''Skrzynka odbiorcza/Faktury'', file_extension = ascii ''pdf''\<rparr>,
      months_back_compensation = 8,
      months_back_invoices = 4\<rparr>"

text \<open>An account whose inbox holds the given folders.\<close>

definition account_with :: "folder list \<Rightarrow> account" where
  "account_with fs =
     \<lparr>inbox = Some (Folder (ascii ''Skrzynka odbiorcza'') fs []),
      sent = Some (Folder (ascii ''Elementy wyslane'') [] []),
      root = Some (Folder (ascii ''root'') [] [])\<rparr>"

text \<open>Scenario B of the specification, and the same with a hyphen in the file name.\<close>

definition scenario_b_folder :: folder where
  "scenario_b_folder =
     Folder (ascii ''Faktury'') []
       [message_at 50 [file_attachment (ascii ''inv_1001_copy.pdf''), file_attachment (ascii ''readme.txt'')]]"

definition hyphen_folder :: folder where
  "hyphen_folder =
     Folder (ascii ''Faktury'') []
       [message_at 50 [file_attachment (ascii ''inv-1001_copy.pdf''), file_attachment (ascii ''readme.txt'')]]"


text \<open>Two invoices whose numbers share a prefix, and one file for the longer number.\<close>

definition prefix_folder :: folder where
  "prefix_folder = Folder (ascii ''Faktury'') [] [message_at 50 [file_attachment (ascii ''inv-10.pdf'')]]"

definition first_search_fails :: "nat \<Rightarrow> nat option" where
  "first_search_fails i = (if i = 0 then Some 0 else None)"

text \<open>
  The regular expressions of the worked cases, as \<^verbatim>\<open>re.findall\<close> answers on them with
  \<^verbatim>\<open>re.IGNORECASE\<close>: the pattern \<^verbatim>\<open>(\<close> does not compile, and the pattern \<^verbatim>\<open>\S+\<close> matches
  each longest run of characters that are no white space, which are the words of
  \<^verbatim>\<open>text.split()\<close>. The worked cases use no other pattern; the table has no match for one.
\<close>

definition nonspace_pattern :: str where
  "nonspace_pattern = backslash @ ascii ''S+''"

definition findall_table :: "unicode \<Rightarrow> str \<Rightarrow> str \<Rightarrow> exn + re_match list" where
  "findall_table U pattern text =
     (if pattern = ascii ''('' then Inl ReError
      else if pattern = nonspace_pattern then Inr (map Match_str (split_words U [] text))
      else Inr [])"

definition example_criteria :: search_criteria where
  "example_criteria = default_criteria\<lparr>extraction := \<lparr>regex_pattern = nonspace_pattern\<rparr>\<rparr>"

text \<open>
  A run whose delivery fails: the compensation \<open>Kompensata 05\<close> lists two invoices, which
  the criteria read with the pattern \<^verbatim>\<open>\S+\<close>, the file
  of one of them is in the folder of the invoices, the notification of the partial result is
  sent, and the server raises at the second \<^verbatim>\<open>send_and_save\<close>.
\<close>

definition kompensata_pdf :: attachment where
  "kompensata_pdf =
     \<lparr>att_name = ascii ''Kompensata_05.pdf'', is_file_attachment = True,
      att_content = Pdf [Page_text (ascii ''INV-1001 INV-2002'')]\<rparr>"

definition kompensata_message :: email where
  "kompensata_message =
     \<lparr>subject = ascii ''Kompensata 05'', sender_address = ascii ''quadra@example.com'',
      datetime_received = 60, has_attachments = True, is_read = False,
      attachments = [kompensata_pdf]\<rparr>"

definition example_account :: account where
  "example_account =
     account_with [Folder (ascii ''Kompensaty Quadra'') [] [kompensata_message], hyphen_folder]"

definition example_config :: app_config where
  "example_config =
     \<lparr>exchange_username = ascii ''jan@firma.pl'', ksiegowa_glowny = ascii ''ksiegowa@firma.pl'',
      ksiegowa_2 = None, ksiegowa_3 = None, powiadomienia_brak_pdf = [],
      powiadomienia_czesciowe = [],
      przetworzone = ascii ''Skrzynka odbiorcza/Kompensaty Quadra/Wyslane do weryfikacji''\<rparr>"

definition example_templates :: email_template_collection where
  "example_templates =
     \<lparr>email_do_ksiegowej =
        \<lparr>tpl_subject = ascii ''Kompensata {temat_kompensaty}'',
         body = ascii ''{numery_faktur_z_kompensaty_lista}{brakujace_faktury_info}''\<rparr>,
      powiadomienie_brak_faktur_w_pdf =
        \<lparr>tpl_subject = ascii ''Problem: {temat_kompensaty}'', body = ascii ''{nazwa_pliku_pdf_kompensaty}''\<rparr>,
      powiadomienie_czesciowo_znalezione =
        \<lparr>tpl_subject = ascii ''UWAGA: {temat_kompensaty}'',
         body = ascii ''{liczba_znalezionych}/{liczba_oczekiwanych}''\<rparr>\<rparr>"

definition second_send_fails :: environment where
  "second_send_fails =
     \<lparr>env_unicode = ascii_table, env_account = example_account, env_now = 1000, main_fault = None,
      invoice_faults = no_faults, send_raises = (\<lambda>k. 0 < k), move_raises = False,
      save_raises = False, strftime = (\<lambda>fmt t. (ascii ''1970-01-01 00:01'')),
      env_findall = findall_table ascii_table, env_iter_order = (\<lambda>xs. xs),
      env_runtime = simple_runtime\<rparr>"

definition empty_world :: world where
  "empty_world = \<lparr>calls = [], send_attempts = 0\<rparr>"

section \<open>Properties of the fragment\<close>

lemma re_digit_isalnum: "re_digit U c \<Longrightarrow> isalnum U c"
  by (simp add: re_digit_def isalnum_def)

lemma in_fragment_class_iff:
  "in_fragment_class U c \<longleftrightarrow>
     isalnum U c \<or> c = ord (CHR ''_'') \<or> c = ord (CHR ''.'') \<or> c = ord (CHR ''-'')"
  using re_digit_isalnum [of U c] by (auto simp: in_fragment_class_def re_word_def)

lemma fragment_char:
  "(if in_fragment_class U c then c else ord (CHR ''_'')) =
   (if isalnum U c \<or> c = ord (CHR ''.'') \<or> c = ord (CHR ''-'') then c else ord (CHR ''_''))"
  by (auto simp: in_fragment_class_iff)

text \<open>On ASCII strings, tables that agree with \<open>ascii_table\<close> on ASCII give what it gives.\<close>

lemma agrees_on_ascii_table: "agrees_on_ascii ascii_table"
  by (simp add: agrees_on_ascii_def)

lemma lower_ascii: "agrees_on_ascii U \<Longrightarrow> is_ascii s \<Longrightarrow> lower U s = lower ascii_table s"
  by (simp add: agrees_on_ascii_def lower_def)

lemma isalnum_ascii:
  "agrees_on_ascii U \<Longrightarrow> 0 \<le> c \<Longrightarrow> c < 128 \<Longrightarrow> isalnum U c = isalnum ascii_table c"
  by (simp add: agrees_on_ascii_def isalnum_def isdecimal_def)

lemma in_fragment_class_ascii:
  "agrees_on_ascii U \<Longrightarrow> 0 \<le> c \<Longrightarrow> c < 128 \<Longrightarrow>
   in_fragment_class U c = in_fragment_class ascii_table c"
  by (simp add: in_fragment_class_iff isalnum_ascii)

lemma re_sub_fragment_ascii:
  "agrees_on_ascii U \<Longrightarrow> is_ascii s \<Longrightarrow> re_sub_fragment U s = re_sub_fragment ascii_table s"
  by (auto simp: re_sub_fragment_def is_ascii_def list_all_iff in_fragment_class_ascii)

lemma is_ascii_re_sub_fragment: "is_ascii s \<Longrightarrow> is_ascii (re_sub_fragment U s)"
  by (auto simp: re_sub_fragment_def is_ascii_def list_all_iff ord_def)

lemma search_fragment_ascii:
  "agrees_on_ascii U \<Longrightarrow> is_ascii s \<Longrightarrow> search_fragment U s = search_fragment ascii_table s"
  by (simp add: search_fragment_def re_sub_fragment_ascii lower_ascii is_ascii_re_sub_fragment)

text \<open>
  C5. The fragment is a function of the identifier alone (and of the Unicode tables of
  Python, which are fixed): it is the identifier with every character that is not
  alphanumeric, a dot or a hyphen replaced by an underscore, then lowercased. This holds
  for every identifier, ASCII or not, whatever the tables are. With tables that are
  Python's on ASCII, \<open>F/M 123-45\<close> gives \<open>f_m_123-45\<close>.
\<close>

theorem search_fragment_pointwise:
  "search_fragment U ident =
     lower U (map (\<lambda>c. if isalnum U c \<or> c = ord (CHR ''.'') \<or> c = ord (CHR ''-'') then c
                        else ord (CHR ''_'')) ident)
   \<and> (agrees_on_ascii U \<longrightarrow> search_fragment U (ascii ''F/M 123-45'') = ascii ''f_m_123-45'')"
proof
  show "search_fragment U ident =
     lower U (map (\<lambda>c. if isalnum U c \<or> c = ord (CHR ''.'') \<or> c = ord (CHR ''-'') then c
                        else ord (CHR ''_'')) ident)"
    unfolding search_fragment_def re_sub_fragment_def fragment_char ..
  have a: "is_ascii (ascii ''F/M 123-45'')"
    by code_simp
  have "search_fragment ascii_table (ascii ''F/M 123-45'') = ascii ''f_m_123-45''"
    by code_simp
  then show "agrees_on_ascii U \<longrightarrow> search_fragment U (ascii ''F/M 123-45'') = ascii ''f_m_123-45''"
    using a by (simp add: search_fragment_ascii)
qed

theorem search_fragment_pointwise_witness:
  "agrees_on_ascii ascii_table
   \<and> search_fragment ascii_table (ascii ''A b'') = ascii ''a_b''
   \<and> search_fragment ascii_table (ascii ''F/M 123-45'') = ascii ''f_m_123-45''"
proof -
  have "lower ascii_table
          (map (\<lambda>c. if isalnum ascii_table c \<or> c = ord (CHR ''.'') \<or> c = ord (CHR ''-'') then c
                     else ord (CHR ''_'')) (ascii ''A b'')) = ascii ''a_b''"
    by code_simp
  then show ?thesis
    using search_fragment_pointwise [of ascii_table "ascii ''A b''"] agrees_on_ascii_table
    by simp
qed

section \<open>The search for one invoice and for a batch\<close>

lemma startswith_prefix: "startswith s p = prefix p s"
  by (induction s p rule: startswith.induct) auto

lemma endswith_suffix: "endswith s p = suffix p s"
  by (simp add: endswith_def startswith_prefix suffix_to_prefix)

lemma str_in_sublist: "str_in p s = sublist p s"
  by (induction s) (auto simp: startswith_prefix sublist_Cons_right)

lemma find_append_case:
  "find P (xs @ ys) = (case find P xs of None \<Rightarrow> find P ys | Some x \<Rightarrow> Some x)"
  by (induction xs) auto

lemma find_cong_set: "(\<And>a. a \<in> set xs \<Longrightarrow> P a = Q a) \<Longrightarrow> find P xs = find Q xs"
  by (induction xs) auto

lemma never_setD: "never_set stop \<Longrightarrow> \<not> stop n"
  by (simp add: never_set_def)

lemma check_attachments_nostop:
  "never_set stop \<Longrightarrow>
   fst (check_attachments U stop frag ext as n) = Inr (find (attachment_matches U frag ext) as)"
  by (induction as arbitrary: n) (auto dest: never_setD)

lemma check_emails_nostop:
  "never_set stop \<Longrightarrow>
   fst (check_emails U stop frag ext es n) =
     Inr (find (attachment_matches U frag ext) (concat (map attachments es)))"
proof (induction es arbitrary: n)
  case Nil
  then show ?case by simp
next
  case (Cons e es)
  obtain r n' where r: "check_attachments U stop frag ext (attachments e) (Suc n) = (r, n')"
    by (cases "check_attachments U stop frag ext (attachments e) (Suc n)")
  with check_attachments_nostop [OF Cons.prems, of U frag ext "attachments e" "Suc n"]
  have r_eq: "r = Inr (find (attachment_matches U frag ext) (attachments e))" by simp
  show ?case
    using Cons.prems Cons.IH r r_eq
    by (auto simp: find_append_case dest: never_setD split: option.splits)
qed

lemma related_loop_length:
  "related_loop U stop faults f s e ext xs i acc n = (Inr found, n') \<Longrightarrow>
   length found \<le> length acc + length xs"
proof (induction xs arbitrary: i acc n)
  case Nil
  then show ?case by simp
next
  case (Cons x xs)
  then show ?case
    by (fastforce split: if_splits prod.splits sum.splits option.splits)
qed

lemma find_single_nostop:
  "never_set stop \<Longrightarrow>
   fst (find_single_invoice_attachment U stop fault f x s e ext n) =
     Inr (find (attachment_matches U (search_fragment U x) ext)
            (concat (map attachments (fetched fault (folder_filter f s e)))))"
  by (simp add: find_single_invoice_attachment_def check_emails_nostop)







lemma never_set_not_cancelled: "never_set not_cancelled"
  by (simp add: never_set_def not_cancelled_def)

lemma attachment_matches_iff:
  "attachment_matches U frag ext a \<longleftrightarrow>
     is_file_attachment a \<and> suffix (ascii ''.'' @ lower U ext) (lower U (att_name a))
     \<and> sublist frag (lower U (att_name a))"
  by (simp add: attachment_matches_def Let_def endswith_suffix str_in_sublist)

lemma attachment_matches_ascii:
  assumes "agrees_on_ascii U" "is_ascii x" "is_ascii ext" "is_ascii (att_name a)"
  shows "attachment_matches U (search_fragment U x) ext a =
         attachment_matches ascii_table (search_fragment ascii_table x) ext a"
  using assms by (simp add: attachment_matches_def lower_ascii search_fragment_ascii)

lemma find_matches_ascii:
  assumes "agrees_on_ascii U" "is_ascii x" "is_ascii ext"
    "list_all (\<lambda>a. is_ascii (att_name a)) cands"
  shows "find (attachment_matches U (search_fragment U x) ext) cands =
         find (attachment_matches ascii_table (search_fragment ascii_table x) ext) cands"
  using assms by (intro find_cong_set attachment_matches_ascii) (auto simp: list_all_iff)

lemma check_attachments_stops:
  "attachment_matches U frag ext a \<Longrightarrow>
   check_attachments U stop frag ext (as @ a # rest) n =
   check_attachments U stop frag ext (as @ [a]) n"
  by (induction as arbitrary: n) auto

lemma check_attachments_None:
  "check_attachments U stop frag ext as n = (Inr None, n') \<Longrightarrow>
   \<forall>a \<in> set as. \<not> attachment_matches U frag ext a"
  by (induction as arbitrary: n) (auto split: if_splits)

lemma check_emails_stops:
  assumes "\<exists>a \<in> set (attachments m). attachment_matches U frag ext a"
  shows "check_emails U stop frag ext (es @ m # rest) n = check_emails U stop frag ext (es @ [m]) n"
proof (induction es arbitrary: n)
  case Nil
  from assms have ne: "attachments m \<noteq> []" by auto
  obtain r k where r: "check_attachments U stop frag ext (attachments m) (Suc n) = (r, k)"
    by (cases "check_attachments U stop frag ext (attachments m) (Suc n)")
  with assms have "r \<noteq> Inr None"
    using check_attachments_None [of U stop frag ext "attachments m" "Suc n" k] by auto
  with r ne show ?case
    by (auto split: sum.splits option.splits)
next
  case (Cons e es)
  then show ?case
    by (auto split: prod.splits sum.splits option.splits)
qed

text \<open>
  C3 (as amended). When nobody cancels and the server does not fail, the search for one
  identifier returns the first attachment, in the order of the messages of the window taken
  newest first and of the attachments inside each message, that is a file attachment whose
  lowercased name ends with a dot and the lowercased extension and contains the fragment;
  it returns no attachment when none qualifies. The messages traversed are those of the
  folder that carry attachments and were received in \<open>[s, e)\<close>, in descending order of
  reception. Nothing after an accepted attachment is examined: the outcome of each loop,
  polls included, is the one on the list cut after the accepted element. All this holds
  whatever the Unicode tables are. With tables that are Python's on ASCII, the identifier
  \<open>INV-1001\<close> has the fragment \<open>inv-1001\<close>: against the file names \<open>inv_1001_copy.pdf\<close>,
  \<open>readme.txt\<close> it finds nothing, against \<open>inv-1001_copy.pdf\<close>, \<open>readme.txt\<close> it finds the
  first.
\<close>

theorem find_single_invoice_attachment_first_match:
  assumes "never_set stop"
  shows "fst (find_single_invoice_attachment U stop None f ident s e ext n) =
           Inr (find (\<lambda>a. is_file_attachment a
                          \<and> suffix (ascii ''.'' @ lower U ext) (lower U (att_name a))
                          \<and> sublist (search_fragment U ident) (lower U (att_name a)))
                  (concat (map attachments (folder_filter f s e))))
         \<and> sorted_wrt (\<lambda>m m'. datetime_received m' \<le> datetime_received m) (folder_filter f s e)
         \<and> set (folder_filter f s e) =
             {m \<in> set (items f). has_attachments m \<and> s \<le> datetime_received m
                                 \<and> datetime_received m < e}
         \<and> ((\<exists>a \<in> set (attachments m). attachment_matches U (search_fragment U ident) ext a) \<longrightarrow>
              check_emails U stop (search_fragment U ident) ext (es @ m # rest) n =
              check_emails U stop (search_fragment U ident) ext (es @ [m]) n)
         \<and> (attachment_matches U (search_fragment U ident) ext a \<longrightarrow>
              check_attachments U stop (search_fragment U ident) ext (as @ a # rest') n =
              check_attachments U stop (search_fragment U ident) ext (as @ [a]) n)
         \<and> (agrees_on_ascii U \<longrightarrow>
              search_fragment U (ascii ''INV-1001'') = ascii ''inv-1001''
              \<and> fst (find_single_invoice_attachment U stop None scenario_b_folder
                       (ascii ''INV-1001'') 0 100 (ascii ''pdf'') n) = Inr None
              \<and> fst (find_single_invoice_attachment U stop None hyphen_folder
                       (ascii ''INV-1001'') 0 100 (ascii ''pdf'') n)
                  = Inr (Some (file_attachment (ascii ''inv-1001_copy.pdf''))))"
proof -
  have 1: "fst (find_single_invoice_attachment U stop None f ident s e ext n) =
           Inr (find (\<lambda>a. is_file_attachment a
                          \<and> suffix (ascii ''.'' @ lower U ext) (lower U (att_name a))
                          \<and> sublist (search_fragment U ident) (lower U (att_name a)))
                  (concat (map attachments (folder_filter f s e))))"
    using assms
    by (simp add: find_single_nostop fetched_def attachment_matches_iff [abs_def])
  have "sorted (map (\<lambda>m. - datetime_received m) (folder_filter f s e))"
    by (simp add: folder_filter_def)
  then have 2: "sorted_wrt (\<lambda>m m'. datetime_received m' \<le> datetime_received m) (folder_filter f s e)"
    by (simp add: sorted_map)
  have 3: "set (folder_filter f s e) =
             {m \<in> set (items f). has_attachments m \<and> s \<le> datetime_received m
                                 \<and> datetime_received m < e}"
    by (auto simp: folder_filter_def)
  have x: "is_ascii (ascii ''INV-1001'')" and p: "is_ascii (ascii ''pdf'')"
    by code_simp+
  have 5: "search_fragment U (ascii ''INV-1001'') = ascii ''inv-1001''" if "agrees_on_ascii U"
  proof -
    have "search_fragment ascii_table (ascii ''INV-1001'') = ascii ''inv-1001''"
      by code_simp
    with that x show ?thesis by (simp add: search_fragment_ascii)
  qed
  have 6: "fst (find_single_invoice_attachment U stop None scenario_b_folder
                       (ascii ''INV-1001'') 0 100 (ascii ''pdf'') n) = Inr None"
    if "agrees_on_ascii U"
  proof -
    let ?cands = "concat (map attachments (fetched None (folder_filter scenario_b_folder 0 100)))"
    have "list_all (\<lambda>a. is_ascii (att_name a)) ?cands"
      by code_simp
    moreover have "find (attachment_matches ascii_table (search_fragment ascii_table
                      (ascii ''INV-1001'')) (ascii ''pdf'')) ?cands = None"
      by code_simp
    ultimately show ?thesis
      using assms that x p by (simp add: find_single_nostop find_matches_ascii)
  qed
  have 7: "fst (find_single_invoice_attachment U stop None hyphen_folder
                       (ascii ''INV-1001'') 0 100 (ascii ''pdf'') n)
                  = Inr (Some (file_attachment (ascii ''inv-1001_copy.pdf'')))"
    if "agrees_on_ascii U"
  proof -
    let ?cands = "concat (map attachments (fetched None (folder_filter hyphen_folder 0 100)))"
    have "list_all (\<lambda>a. is_ascii (att_name a)) ?cands"
      by code_simp
    moreover have "find (attachment_matches ascii_table (search_fragment ascii_table
                      (ascii ''INV-1001'')) (ascii ''pdf'')) ?cands
                   = Some (file_attachment (ascii ''inv-1001_copy.pdf''))"
      by code_simp
    ultimately show ?thesis
      using assms that x p by (simp add: find_single_nostop find_matches_ascii)
  qed
  show ?thesis
    using 1 2 3 5 6 7 check_emails_stops check_attachments_stops by blast
qed

text \<open>
  Scenario B as the specification states it: the search returns no attachment, after
  polling once for the message and once for each of its two attachments.
\<close>

theorem scenario_b_finds_nothing:
  "find_single_invoice_attachment ascii_table not_cancelled None scenario_b_folder
     (ascii ''INV-1001'') 0 100 (ascii ''pdf'') 0
     = (Inr None, 3)"
  by code_simp

text \<open>
  C9. Whenever the batch search returns, it returns at most as many attachments as it was
  given identifiers: each turn of its loop appends one attachment or none.
\<close>

theorem found_count_le_extracted:
  assumes "find_related_invoices U stop faults acc identifiers ref criteria n = (Inr found, n')"
  shows "length found \<le> length identifiers"
  using assms related_loop_length [of U stop faults _ _ _ _ identifiers 0 "[]" "Suc n" found n']
  by (auto simp: find_related_invoices_def Let_def
           split: if_splits sum.splits option.splits prod.splits)

text \<open>
  C1. The inbox has no folder \<open>Faktury\<close>, nobody cancels and the server does not fail:
  the batch search for one identifier ends with \<open>FolderNotFoundError\<close> raised by
  \<^verbatim>\<open>get_folder_by_path\<close>, and returns no list.
\<close>

theorem find_related_invoices_folder_error_escapes:
  "find_related_invoices ascii_table not_cancelled no_faults (account_with []) [ascii ''INV-1'']
     1000 default_criteria 0 = (Inl FolderNotFoundError, 1)"
  by code_simp







lemma missing_loop_filter:
  "missing_loop U names xs acc =
     acc @ filter (\<lambda>x. \<not> list_ex (\<lambda>filename. str_in (search_fragment U x) filename) names) xs"
  by (induction xs arbitrary: acc) auto

lemma find_missing_invoices_filter:
  "find_missing_invoices U xs found =
     filter (\<lambda>x. \<not> (\<exists>a \<in> set found. str_in (search_fragment U x) (lower U (att_name a)))) xs"
  by (auto simp: find_missing_invoices_def missing_loop_filter list_ex_iff intro!: filter_cong)

text \<open>
  C2. The server fails during the first search of a batch for \<open>INV-1\<close> and \<open>INV-10\<close>: the
  batch returns the one file \<open>inv-10.pdf\<close>, found for the second identifier; the search for
  \<open>INV-1\<close> returned nothing, so that \<open>INV-1\<close> was matched to no attachment; and
  \<^verbatim>\<open>_find_missing_invoices\<close> reports no identifier missing, because the fragment \<open>inv-1\<close>
  occurs in the name \<open>inv-10.pdf\<close>.
\<close>

theorem find_missing_invoices_hides_failed_search:
  "find_related_invoices ascii_table not_cancelled first_search_fails
      (account_with [prefix_folder]) [ascii ''INV-1'', ascii ''INV-10''] 1000 default_criteria 0
     = (Inr [file_attachment (ascii ''inv-10.pdf'')], 5)
   \<and> invoice_window 1000 (months_back_invoices default_criteria)
       = Inr (- 10713599999000, 172800001000)
   \<and> find_single_invoice_attachment ascii_table not_cancelled (first_search_fails 0)
        prefix_folder (ascii ''INV-1'') (- 10713599999000) 172800001000 (ascii ''pdf'') 1
       = (Inr None, 1)
   \<and> find_missing_invoices ascii_table [ascii ''INV-1'', ascii ''INV-10'']
        [file_attachment (ascii ''inv-10.pdf'')] = []"
  by code_simp

section \<open>The search: worked cases\<close>

theorem find_single_invoice_attachment_first_match_witness:
  "never_set not_cancelled \<and> agrees_on_ascii ascii_table
   \<and> attachment_matches ascii_table (search_fragment ascii_table (ascii ''INV-1001'')) (ascii ''pdf'')
        (file_attachment (ascii ''inv-1001_copy.pdf''))
   \<and> (\<exists>a \<in> set (attachments (message_at 50 [file_attachment (ascii ''inv-1001_copy.pdf'')])).
         attachment_matches ascii_table (search_fragment ascii_table (ascii ''INV-1001''))
           (ascii ''pdf'') a)
   \<and> check_emails ascii_table not_cancelled (search_fragment ascii_table (ascii ''INV-1001''))
        (ascii ''pdf'')
        ([] @ message_at 50 [file_attachment (ascii ''inv-1001_copy.pdf'')]
            # [message_at 40 [file_attachment (ascii ''inv-1001.pdf'')]]) 0 =
      check_emails ascii_table not_cancelled (search_fragment ascii_table (ascii ''INV-1001''))
        (ascii ''pdf'') ([] @ [message_at 50 [file_attachment (ascii ''inv-1001_copy.pdf'')]]) 0
   \<and> check_attachments ascii_table not_cancelled (search_fragment ascii_table (ascii ''INV-1001''))
        (ascii ''pdf'')
        ([] @ file_attachment (ascii ''inv-1001_copy.pdf'') # [file_attachment (ascii ''readme.txt'')]) 0 =
      check_attachments ascii_table not_cancelled (search_fragment ascii_table (ascii ''INV-1001''))
        (ascii ''pdf'') ([] @ [file_attachment (ascii ''inv-1001_copy.pdf'')]) 0
   \<and> fst (find_single_invoice_attachment ascii_table not_cancelled None scenario_b_folder
          (ascii ''INV-1001'') 0 100 (ascii ''pdf'') 0) = Inr None
   \<and> fst (find_single_invoice_attachment ascii_table not_cancelled None hyphen_folder
          (ascii ''INV-1001'') 0 100 (ascii ''pdf'') 0)
       = Inr (Some (file_attachment (ascii ''inv-1001_copy.pdf'')))"
proof -
  have m: "attachment_matches ascii_table (search_fragment ascii_table (ascii ''INV-1001''))
             (ascii ''pdf'') (file_attachment (ascii ''inv-1001_copy.pdf''))"
    by code_simp
  then have e: "\<exists>a \<in> set (attachments (message_at 50 [file_attachment (ascii ''inv-1001_copy.pdf'')])).
         attachment_matches ascii_table (search_fragment ascii_table (ascii ''INV-1001''))
           (ascii ''pdf'') a"
    by (simp add: message_at_def)
  show ?thesis
    using m e never_set_not_cancelled agrees_on_ascii_table
      find_single_invoice_attachment_first_match [OF never_set_not_cancelled,
        where U = ascii_table and ident = "ascii ''INV-1001''" and ext = "ascii ''pdf''" and n = 0
          and a = "file_attachment (ascii ''inv-1001_copy.pdf'')" and as = "[]"
          and rest' = "[file_attachment (ascii ''readme.txt'')]"
          and m = "message_at 50 [file_attachment (ascii ''inv-1001_copy.pdf'')]" and es = "[]"
          and rest = "[message_at 40 [file_attachment (ascii ''inv-1001.pdf'')]]"]
    by blast
qed

theorem found_count_le_extracted_witness:
  "find_related_invoices ascii_table not_cancelled no_faults (account_with [hyphen_folder])
     [ascii ''INV-1001'', ascii ''X''] 1000 default_criteria 0
     = (Inr [file_attachment (ascii ''inv-1001_copy.pdf'')], 8)
   \<and> length [file_attachment (ascii ''inv-1001_copy.pdf'')]
       \<le> length [ascii ''INV-1001'', ascii ''X'']"
proof -
  have run: "find_related_invoices ascii_table not_cancelled no_faults
     (account_with [hyphen_folder]) [ascii ''INV-1001'', ascii ''X''] 1000 default_criteria 0
     = (Inr [file_attachment (ascii ''inv-1001_copy.pdf'')], 8)"
    by code_simp
  show ?thesis
    using run found_count_le_extracted [OF run] by simp
qed


section \<open>Extraction of the invoice numbers\<close>

lemma set_add_props: "set (set_add s x) = insert x (set s)" "distinct s \<Longrightarrow> distinct (set_add s x)"
  by (auto simp: set_add_def)

lemma set_update_props:
  "set (set_update s xs) = set s \<union> set xs" "distinct s \<Longrightarrow> distinct (set_update s xs)"
  unfolding set_update_def
  by (induction xs arbitrary: s) (auto simp: set_add_props)

lemma is_iterationD:
  assumes "is_iteration iter_order" "distinct xs"
  shows "set (iter_order xs) = set xs" "distinct (iter_order xs)"
proof -
  from assms have m: "mset (iter_order xs) = mset xs" by (simp add: is_iteration_def)
  from m show "set (iter_order xs) = set xs" by (rule mset_eq_setD)
  from m assms(2) show "distinct (iter_order xs)" by (metis distinct_count_atmost_1 mset_eq_imp_distinct_iff)
qed

lemma is_iteration_id: "is_iteration (\<lambda>xs. xs)"
  by (simp add: is_iteration_def)

lemma is_iteration_rev: "is_iteration rev"
  by (simp add: is_iteration_def)

lemma collect_matches_distinct: "distinct acc \<Longrightarrow> distinct (collect_matches U acc ms)"
  by (induction ms arbitrary: acc) (auto simp: set_add_props split: sum.splits)

lemma find_invoice_numbers_distinct: "distinct (find_invoice_numbers_in_text U re text pattern)"
  by (auto simp: find_invoice_numbers_in_text_def collect_matches_distinct split: sum.splits)

lemma pages_loop_orders:
  assumes "is_iteration io" "is_iteration io'"
  shows "distinct a \<Longrightarrow> distinct b \<Longrightarrow> set a = set b \<Longrightarrow>
         pages_loop U re io stop pattern ps a n = (Inr ids, k) \<Longrightarrow>
         distinct ids \<and> (\<exists>ids'. pages_loop U re io' stop pattern ps b n = (Inr ids', k)
                            \<and> distinct ids' \<and> set ids' = set ids)"
proof (induction ps arbitrary: a b n)
  case Nil
  then show ?case
    using is_iterationD [OF assms(1), of a] is_iterationD [OF assms(2), of b] by auto
next
  case (Cons p ps)
  from Cons.prems(4) have ns: "\<not> stop n" by (auto split: if_splits)
  show ?case
  proof (cases "extract_text_from_page U p = []")
    case True
    with Cons.prems ns Cons.IH [of a b "Suc n"] show ?thesis by simp
  next
    case False
    let ?nums = "find_invoice_numbers_in_text U re (extract_text_from_page U p) pattern"
    have d: "distinct ?nums" by (rule find_invoice_numbers_distinct)
    let ?a = "set_update a (io ?nums)" and ?b = "set_update b (io' ?nums)"
    have "distinct ?a" "distinct ?b" "set ?a = set ?b"
      using Cons.prems(1,2,3) is_iterationD(1) [OF assms(1) d] is_iterationD(1) [OF assms(2) d]
      by (simp_all add: set_update_props)
    moreover from Cons.prems(4) ns False
    have "pages_loop U re io stop pattern ps ?a (Suc n) = (Inr ids, k)"
      by (simp add: Let_def)
    ultimately have "distinct ids \<and> (\<exists>ids'. pages_loop U re io' stop pattern ps ?b (Suc n) = (Inr ids', k)
                            \<and> distinct ids' \<and> set ids' = set ids)"
      by (rule Cons.IH)
    with ns False show ?thesis by (simp add: Let_def)
  qed
qed

lemma pages_loop_two_runs:
  assumes "is_iteration io" "is_iteration io'"
  shows "distinct a \<Longrightarrow> distinct b \<Longrightarrow> set a = set b \<Longrightarrow>
         pages_loop U re io stop pattern ps a n = (Inr ids, k) \<Longrightarrow>
         pages_loop U re io' stop' pattern ps b n' = (Inr ids2, k') \<Longrightarrow>
         distinct ids2 \<and> set ids2 = set ids"
proof (induction ps arbitrary: a b n n')
  case Nil
  then show ?case
    using is_iterationD [OF assms(1), of a] is_iterationD [OF assms(2), of b] by auto
next
  case (Cons p ps)
  from Cons.prems(4) have ns: "\<not> stop n" by (auto split: if_splits)
  from Cons.prems(5) have ns': "\<not> stop' n'" by (auto split: if_splits)
  show ?case
  proof (cases "extract_text_from_page U p = []")
    case True
    with Cons.prems ns ns' Cons.IH [of a b "Suc n" "Suc n'"] show ?thesis by simp
  next
    case False
    let ?nums = "find_invoice_numbers_in_text U re (extract_text_from_page U p) pattern"
    have d: "distinct ?nums" by (rule find_invoice_numbers_distinct)
    let ?a = "set_update a (io ?nums)" and ?b = "set_update b (io' ?nums)"
    have "distinct ?a" "distinct ?b" "set ?a = set ?b"
      using Cons.prems(1,2,3) is_iterationD(1) [OF assms(1) d] is_iterationD(1) [OF assms(2) d]
      by (simp_all add: set_update_props)
    moreover from Cons.prems(4) ns False
    have "pages_loop U re io stop pattern ps ?a (Suc n) = (Inr ids, k)"
      by (simp add: Let_def)
    moreover from Cons.prems(5) ns' False
    have "pages_loop U re io' stop' pattern ps ?b (Suc n') = (Inr ids2, k')"
      by (simp add: Let_def)
    ultimately show ?thesis
      by (rule Cons.IH)
  qed
qed

text \<open>
  C6 (as amended). Whatever the order in which the sets are iterated, a run of the
  extraction that returns, returns each identifier once; on the same document and pattern,
  under the same cancellation, a run with any other iteration order returns too, the same
  identifiers, each once, after the same number of polls; and any other run on the same
  document and pattern that returns, whatever its iteration order and the answers to its
  polls, returns the same identifiers, each once. The order of the list is that of the
  iteration of the set, which the extraction does not fix.
\<close>

theorem extract_same_identifiers_any_order:
  assumes "is_iteration iter_order" "is_iteration iter_order'"
    and "extract_invoice_numbers U re_findall iter_order stop content pattern n = (Inr ids, k)"
  shows "distinct ids
       \<and> (\<exists>ids'. extract_invoice_numbers U re_findall iter_order' stop content pattern n
                    = (Inr ids', k)
                  \<and> distinct ids' \<and> set ids' = set ids)
       \<and> (extract_invoice_numbers U re_findall iter_order' stop' content pattern n'
             = (Inr ids2, k')
           \<longrightarrow> distinct ids2 \<and> set ids2 = set ids)"
proof -
  from assms(3) obtain pages where c: "content = Pdf pages" and ns: "\<not> stop n" "pattern \<noteq> []"
    and run: "pages_loop U re_findall iter_order stop pattern pages [] (Suc n) = (Inr ids, k)"
    by (cases content) (auto simp: extract_invoice_numbers_def split: if_splits)
  have 1: "distinct ids
       \<and> (\<exists>ids'. extract_invoice_numbers U re_findall iter_order' stop content pattern n
                    = (Inr ids', k)
                  \<and> distinct ids' \<and> set ids' = set ids)"
    using pages_loop_orders [OF assms(1,2) _ _ _ run, of "[]"] c ns
    by (simp add: extract_invoice_numbers_def)
  have 2: "distinct ids2 \<and> set ids2 = set ids"
    if "extract_invoice_numbers U re_findall iter_order' stop' content pattern n'
          = (Inr ids2, k')"
  proof -
    from that c have "pages_loop U re_findall iter_order' stop' pattern pages [] (Suc n')
                        = (Inr ids2, k')"
      by (auto simp: extract_invoice_numbers_def split: if_splits)
    with pages_loop_two_runs [OF assms(1,2) _ _ _ run, of "[]"] show ?thesis
      by simp
  qed
  show ?thesis
    using 1 2 by blast
qed

text \<open>
  Two pages, the first with \<open>INV-1\<close> and the second with \<open>INV-2\<close>, read with the pattern
  \<^verbatim>\<open>\S+\<close>: under an iteration that takes the set from its last element the list is
  \<open>INV-2\<close>, \<open>INV-1\<close>, under one that takes it from the first it is \<open>INV-1\<close>, \<open>INV-2\<close>.
\<close>

theorem extract_order_not_first_seen:
  "extract_invoice_numbers ascii_table (findall_table ascii_table) rev not_cancelled
      (Pdf [Page_text (ascii ''INV-1''), Page_text (ascii ''INV-2'')]) nonspace_pattern 0
     = (Inr [ascii ''INV-2'', ascii ''INV-1''], 3)
   \<and> extract_invoice_numbers ascii_table (findall_table ascii_table) (\<lambda>xs. xs) not_cancelled
      (Pdf [Page_text (ascii ''INV-1''), Page_text (ascii ''INV-2'')]) nonspace_pattern 0
     = (Inr [ascii ''INV-1'', ascii ''INV-2''], 3)"
  by code_simp

theorem extract_same_identifiers_any_order_witness:
  "is_iteration rev \<and> is_iteration (\<lambda>xs. xs)
   \<and> extract_invoice_numbers ascii_table (findall_table ascii_table) rev not_cancelled
        (Pdf [Page_text (ascii ''INV-2 INV-1''), Page_raises, Page_text (ascii ''INV-1'')])
        nonspace_pattern 0
       = (Inr [ascii ''INV-2'', ascii ''INV-1''], 4)
   \<and> distinct [ascii ''INV-2'', ascii ''INV-1'']
   \<and> (\<exists>ids'. extract_invoice_numbers ascii_table (findall_table ascii_table) (\<lambda>xs. xs)
                 not_cancelled
                 (Pdf [Page_text (ascii ''INV-2 INV-1''), Page_raises, Page_text (ascii ''INV-1'')])
                 nonspace_pattern 0 = (Inr ids', 4)
        \<and> distinct ids' \<and> set ids' = set [ascii ''INV-2'', ascii ''INV-1''])
   \<and> extract_invoice_numbers ascii_table (findall_table ascii_table) (\<lambda>xs. xs)
        (\<lambda>k. k < 5)
        (Pdf [Page_text (ascii ''INV-2 INV-1''), Page_raises, Page_text (ascii ''INV-1'')])
        nonspace_pattern 5 = (Inr [ascii ''INV-2'', ascii ''INV-1''], 9)
   \<and> set [ascii ''INV-2'', ascii ''INV-1''] = set [ascii ''INV-2'', ascii ''INV-1'']"
proof -
  have run: "extract_invoice_numbers ascii_table (findall_table ascii_table) rev not_cancelled
        (Pdf [Page_text (ascii ''INV-2 INV-1''), Page_raises, Page_text (ascii ''INV-1'')])
        nonspace_pattern 0
       = (Inr [ascii ''INV-2'', ascii ''INV-1''], 4)"
    by code_simp
  have run': "extract_invoice_numbers ascii_table (findall_table ascii_table) (\<lambda>xs. xs)
        (\<lambda>k. k < 5)
        (Pdf [Page_text (ascii ''INV-2 INV-1''), Page_raises, Page_text (ascii ''INV-1'')])
        nonspace_pattern 5 = (Inr [ascii ''INV-2'', ascii ''INV-1''], 9)"
    by code_simp
  show ?thesis
    using run run' is_iteration_rev is_iteration_id
      extract_same_identifiers_any_order [OF is_iteration_rev is_iteration_id run,
        where stop' = "\<lambda>k. k < 5" and n' = 5 and ?ids2.0 = "[ascii ''INV-2'', ascii ''INV-1'']"
          and k' = 9]
    by simp
qed

lemma is_iteration_Nil: "is_iteration io \<Longrightarrow> io [] = []"
  by (auto simp: is_iteration_def dest!: spec [where x = "[]"])

lemma pages_loop_no_match:
  assumes "never_set stop" "is_iteration io" "\<forall>t. re pattern t = Inl ReError"
  shows "fst (pages_loop U re io stop pattern ps [] n) = Inr []"
proof (induction ps arbitrary: n)
  case Nil
  show ?case by (simp add: is_iteration_Nil [OF assms(2)])
next
  case (Cons p ps)
  have "find_invoice_numbers_in_text U re t pattern = []" for t
    using assms(3) by (simp add: find_invoice_numbers_in_text_def)
  then show ?case
    using never_setD [OF assms(1), of n] Cons.IH
    by (simp add: Let_def set_update_def is_iteration_Nil [OF assms(2)])
qed

text \<open>
  C4 (as amended). When the first poll finds no cancellation, the extraction with the empty
  pattern raises \<open>PDFProcessingError\<close>, for every document. When nobody cancels and the
  reader opens the document, the extraction with a non-empty pattern that does not compile
  raises nothing and returns the empty list. When the first poll finds no cancellation and
  the reader cannot open the document, the extraction raises \<open>PDFProcessingError\<close>, for
  every pattern.
\<close>

theorem extract_bad_patterns:
  "(\<not> stop n \<longrightarrow>
      extract_invoice_numbers U re_findall iter_order stop content [] n
        = (Inl PDFProcessingError, Suc n))
   \<and> (never_set stop \<and> is_iteration iter_order \<and> pattern \<noteq> []
        \<and> (\<forall>t. re_findall pattern t = Inl ReError) \<longrightarrow>
      fst (extract_invoice_numbers U re_findall iter_order stop (Pdf pages) pattern n) = Inr [])
   \<and> (\<not> stop n \<longrightarrow>
      extract_invoice_numbers U re_findall iter_order stop Unreadable pattern' n
        = (Inl PDFProcessingError, Suc n))"
proof (intro conjI impI)
  assume "\<not> stop n"
  then show "extract_invoice_numbers U re_findall iter_order stop content [] n
        = (Inl PDFProcessingError, Suc n)"
    by (simp add: extract_invoice_numbers_def)
next
  assume h: "never_set stop \<and> is_iteration iter_order \<and> pattern \<noteq> []
        \<and> (\<forall>t. re_findall pattern t = Inl ReError)"
  then have "\<not> stop n" by (simp add: never_setD)
  with h show "fst (extract_invoice_numbers U re_findall iter_order stop (Pdf pages) pattern n)
                 = Inr []"
    by (simp add: extract_invoice_numbers_def pages_loop_no_match)
next
  assume "\<not> stop n"
  then show "extract_invoice_numbers U re_findall iter_order stop Unreadable pattern' n
        = (Inl PDFProcessingError, Suc n)"
    by (simp add: extract_invoice_numbers_def)
qed

text \<open>
  A document that the reader cannot open, and the pattern \<open>(\<close> which does not compile: the
  extraction raises \<open>PDFProcessingError\<close>.
\<close>

theorem extract_unreadable_document_raises:
  "extract_invoice_numbers ascii_table (findall_table ascii_table) (\<lambda>xs. xs) not_cancelled
     Unreadable (ascii ''('') 0
     = (Inl PDFProcessingError, 1)
   \<and> findall_table ascii_table (ascii ''('') (ascii ''INV-1'') = Inl ReError"
  by code_simp

theorem extract_bad_patterns_witness:
  "\<not> not_cancelled 0
   \<and> extract_invoice_numbers ascii_table (findall_table ascii_table) (\<lambda>xs. xs) not_cancelled
        (Pdf [Page_text (ascii ''INV-1'')]) [] 0
       = (Inl PDFProcessingError, Suc 0)
   \<and> never_set not_cancelled \<and> is_iteration (\<lambda>xs. xs) \<and> ascii ''('' \<noteq> []
   \<and> (\<forall>t. findall_table ascii_table (ascii ''('') t = Inl ReError)
   \<and> fst (extract_invoice_numbers ascii_table (findall_table ascii_table) (\<lambda>xs. xs)
            not_cancelled (Pdf [Page_text (ascii ''INV-1'')]) (ascii ''('') 0) = Inr []
   \<and> extract_invoice_numbers ascii_table (findall_table ascii_table) (\<lambda>xs. xs) not_cancelled
        Unreadable nonspace_pattern 0
       = (Inl PDFProcessingError, Suc 0)"
proof -
  have a: "\<not> not_cancelled 0" by (simp add: not_cancelled_def)
  have b: "\<forall>t. findall_table ascii_table (ascii ''('') t = Inl ReError"
    by (simp add: findall_table_def)
  have c: "ascii ''('' \<noteq> []" by (simp add: ascii_def)
  show ?thesis
    using a b c never_set_not_cancelled is_iteration_id
      extract_bad_patterns [where stop = not_cancelled and n = 0 and U = ascii_table
        and re_findall = "findall_table ascii_table"
        and iter_order = "\<lambda>xs. xs" and content = "Pdf [Page_text (ascii ''INV-1'')]"
        and pattern = "ascii ''(''" and pages = "[Page_text (ascii ''INV-1'')]"
        and pattern' = nonspace_pattern]
    by simp
qed

section \<open>Template rendering\<close>

lemma ord_eq_iff [simp]: "ord a = ord b \<longleftrightarrow> a = b"
  by (simp add: ord_def)

lemma ascii_eq_iff [simp]: "ascii s = ascii t \<longleftrightarrow> s = t"
proof -
  have "inj ord" by (rule injI) simp
  then have "inj (map ord)" by simp
  then show ?thesis unfolding ascii_def by (rule inj_eq)
qed
















section \<open>The run: a failed delivery\<close>

lemma send_email_calls:
  assumes "send_email env recipients subj text atts w = (ok, w')"
  shows "(\<exists>sent. calls w' = calls w @ sent \<and> list_all is_sent sent) \<and> (\<not> ok \<longrightarrow> calls w' = calls w)"
  using assms by (auto simp: send_email_def is_sent_def split: if_splits)

lemma send_compensation_calls:
  assumes "send_compensation_email_to_accounting env config templates pdf found extracted e stop n w
             = (r, n', w')"
  shows "(\<exists>sent. calls w' = calls w @ sent \<and> list_all is_sent sent)
         \<and> (r = Inr False \<longrightarrow> calls w' = calls w)"
proof (cases "stop n \<or> get_ksiegowa_emails config = []")
  case True
  with assms show ?thesis
    by (auto simp: send_compensation_email_to_accounting_def Let_def split: if_splits)
next
  case False
  show ?thesis
  proof (cases "email_template_format (env_unicode env) (env_runtime env) (email_do_ksiegowej templates)
                  (accounting_template_data (env_unicode env) config e extracted found)")
    case (Inl x)
    with False assms show ?thesis
      by (auto simp: send_compensation_email_to_accounting_def Let_def)
  next
    case (Inr t)
    obtain g k where g: "gather_attachments (env_unicode env) stop found [pdf] [lower (env_unicode env) (att_name pdf)] (Suc n) = (g, k)"
      by (cases "gather_attachments (env_unicode env) stop found [pdf] [lower (env_unicode env) (att_name pdf)] (Suc n)")
    show ?thesis
    proof (cases g)
      case (Inl x)
      with False Inr g assms show ?thesis
        by (auto simp: send_compensation_email_to_accounting_def Let_def)
    next
      case (Inr atts)
      obtain ok w1 where s: "send_email env (get_ksiegowa_emails config) (tpl_subject t) (body t) atts w = (ok, w1)"
        by (cases "send_email env (get_ksiegowa_emails config) (tpl_subject t) (body t) atts w")
      from False \<open>email_template_format _ _ _ _ = Inr t\<close> g Inr s assms
      have "r = Inr ok" "w' = w1"
        by (auto simp: send_compensation_email_to_accounting_def Let_def)
      with send_email_calls [OF s] show ?thesis by auto
    qed
  qed
qed

lemma send_partial_calls:
  assumes "send_partial_results_notification env config templates e extracted found stop n w
             = (r, n', w')"
  shows "\<exists>sent. calls w' = calls w @ sent \<and> list_all is_sent sent"
proof (cases "stop n \<or> get_notification_emails_for_partial_results config = []")
  case True
  with assms show ?thesis
    by (auto simp: send_partial_results_notification_def Let_def split: if_splits)
next
  case False
  let ?f = "email_template_format (env_unicode env) (env_runtime env) (powiadomienie_czesciowo_znalezione templates)
                            [ascii ''temat_kompensaty'' \<mapsto> PStr (subject e),
                             ascii ''data_kompensaty'' \<mapsto>
                                PStr (strftime env (ascii ''%Y-%m-%d %H:%M'') (datetime_received e)),
                             ascii ''liczba_oczekiwanych'' \<mapsto> PInt (int (length extracted)),
                             ascii ''numery_faktur_z_kompensaty'' \<mapsto> PList extracted,
                             ascii ''liczba_znalezionych'' \<mapsto> PInt (int (length found)),
                             ascii ''numery_brakujace'' \<mapsto>
                                PList (find_missing_invoices (env_unicode env) extracted found),
                             ascii ''exchange_username'' \<mapsto> PStr (exchange_username config)]"
  show ?thesis
  proof (cases ?f)
    case (Inl x)
    with False assms show ?thesis
      by (auto simp: send_partial_results_notification_def Let_def)
  next
    case (Inr t)
    obtain ok w1 where s: "send_email env (get_notification_emails_for_partial_results config)
                             (tpl_subject t) (body t) [] w = (ok, w1)"
      by (cases "send_email env (get_notification_emails_for_partial_results config)
                             (tpl_subject t) (body t) [] w")
    from False Inr s assms have "w' = w1"
      by (auto simp: send_partial_results_notification_def Let_def)
    with send_email_calls [OF s] show ?thesis by auto
  qed
qed

lemma archive_and_report_not_sent:
  "archive_and_report env config False e extracted found w = (res, w') \<Longrightarrow>
   w' = w \<and> \<not> success res \<and> message res = Delivery_failed"
  by (auto simp: archive_and_report_def)

lemma archive_and_report_message:
  "archive_and_report env config email_sent e extracted found w = (res, w') \<Longrightarrow>
   message res = Delivery_failed \<Longrightarrow> \<not> email_sent"
  by (auto simp: archive_and_report_def Let_def split: if_splits prod.splits)

lemma notify_deliver_archive_failed:
  assumes "notify_deliver_archive env config templates e pdf extracted found stop n w
             = (Inr res, n', w')"
    and "message res = Delivery_failed"
  shows "\<not> success res \<and> (\<exists>sent. calls w' = calls w @ sent \<and> list_all is_sent sent)"
proof -
  let ?p = "if length found < length extracted
            then send_partial_results_notification env config templates e extracted found stop n w
            else (Inr True, n, w)"
  obtain r4 n4 w4 where p: "?p = (r4, n4, w4)" by (cases ?p)
  then have c4: "\<exists>sent. calls w4 = calls w @ sent \<and> list_all is_sent sent"
    using send_partial_calls [of env config templates e extracted found stop n w r4 n4 w4]
    by (auto split: if_splits)
  from assms(1) p obtain notified where r4: "r4 = Inr notified"
    by (cases r4) (auto simp: notify_deliver_archive_def)
  let ?d = "send_compensation_email_to_accounting env config templates pdf found extracted e stop n4 w4"
  obtain r5 n5 w5 where d: "?d = (r5, n5, w5)" by (cases ?d)
  from assms(1) p r4 d obtain email_sent where r5: "r5 = Inr email_sent"
    by (cases r5) (auto simp: notify_deliver_archive_def)
  obtain res6 w6 where a: "archive_and_report env config email_sent e extracted found w5 = (res6, w6)"
    by (cases "archive_and_report env config email_sent e extracted found w5")
  from assms(1) p r4 d r5 a have eq: "res = res6" "w' = w6"
    by (auto simp: notify_deliver_archive_def)
  with assms(2) a have ns: "\<not> email_sent"
    using archive_and_report_message by blast
  with a have "archive_and_report env config False e extracted found w5 = (res6, w6)"
    by simp
  then have 6: "w6 = w5" "\<not> success res6"
    by (auto dest: archive_and_report_not_sent)
  from ns r5 d have "calls w5 = calls w4"
    using send_compensation_calls [OF d] by simp
  with c4 6 eq show ?thesis by auto
qed

lemma handle_no_data_message:
  "handle_no_data_extracted env config templates e pdf stop n w = (Inr res, n', w') \<Longrightarrow>
   message res = No_data"
  by (auto simp: handle_no_data_extracted_def failure_def split: prod.splits sum.splits)

lemma process_steps_failed:
  assumes "process_steps env config templates criteria stop n w = (Inr res, n', w')"
    and "message res = Delivery_failed"
  shows "\<not> success res \<and> (\<exists>sent. calls w' = calls w @ sent \<and> list_all is_sent sent)"
  using assms
  by (auto simp: process_steps_def failure_def
           split: if_splits prod.splits sum.splits option.splits
           dest: handle_no_data_message notify_deliver_archive_failed)

lemma partial_step_calls:
  assumes "(if length found < length extracted
            then send_partial_results_notification env config templates e extracted found stop n w
            else (Inr True, n, w)) = (r4, n4, w4)"
  shows "\<exists>sent. calls w4 = calls w @ sent \<and> list_all is_sent sent"
  using assms
    send_partial_calls [of env config templates e extracted found stop n w r4 n4 w4]
  by (auto split: if_splits)

lemma process_emails_failed_delivery:
  assumes "\<not> stop n"
    and "find_compensation_email env criteria stop (Suc n) = (Inr (Some (e, pdf)), n1)"
    and "extract_invoice_numbers (env_unicode env) (env_findall env) (env_iter_order env) stop
           (att_content pdf) (regex_pattern (extraction criteria)) n1 = (Inr extracted, n2)"
    and "extracted \<noteq> []"
    and "find_related_invoices (env_unicode env) stop (invoice_faults env) (env_account env)
           extracted (datetime_received e) criteria n2 = (Inr found, n3)"
    and "(if length found < length extracted
          then send_partial_results_notification env config templates e extracted found stop n3 w
          else (Inr True, n3, w)) = (Inr notified, n4, w4)"
    and "send_compensation_email_to_accounting env config templates pdf found extracted e stop
           n4 w4 = (Inr False, n5, w5)"
  shows "process_emails env config templates criteria stop n w =
           (\<lparr>success = False, message = Delivery_failed, email_subject = Some (subject e),
             extracted_data = extracted, found_attachments_count = length found,
             missing_invoices = find_missing_invoices (env_unicode env) extracted found\<rparr>,
            n5, w5)"
proof -
  have a: "archive_and_report env config False e extracted found w5 =
           (\<lparr>success = False, message = Delivery_failed, email_subject = Some (subject e),
             extracted_data = extracted, found_attachments_count = length found,
             missing_invoices = find_missing_invoices (env_unicode env) extracted found\<rparr>, w5)"
    by (simp add: archive_and_report_def)
  have "notify_deliver_archive env config templates e pdf extracted found stop n3 w =
           (Inr \<lparr>success = False, message = Delivery_failed, email_subject = Some (subject e),
             extracted_data = extracted, found_attachments_count = length found,
             missing_invoices = find_missing_invoices (env_unicode env) extracted found\<rparr>,
            n5, w5)"
    unfolding notify_deliver_archive_def assms(6) using assms(7) a by simp
  then have "process_steps env config templates criteria stop n w =
           (Inr \<lparr>success = False, message = Delivery_failed, email_subject = Some (subject e),
             extracted_data = extracted, found_attachments_count = length found,
             missing_invoices = find_missing_invoices (env_unicode env) extracted found\<rparr>,
            n5, w5)"
    using assms(1-5) by (simp add: process_steps_def)
  then show ?thesis
    by (simp add: process_emails_def)
qed

text \<open>
  C8. When the delivery to accounting returns \<open>False\<close>, it has changed nothing on the
  store; step 6 then changes nothing either and reports a failure with the message of the
  failed delivery. For a whole run: when the run is not cancelled at its start, finds the
  compensation message, extracts identifiers, searches the invoices and notifies, and its
  delivery to accounting then returns \<open>False\<close>, the run ends there, with the store as the
  delivery left it, its outcome is a failure with the message of the failed delivery, and
  the calls it added to the store are messages sent (the notification of partial results
  at most): the compensation message was neither moved nor marked as read. Conversely, when
  the outcome of a run is that of the failed delivery, the run is a failure and has added
  nothing but messages sent.
\<close>

theorem failed_delivery_leaves_source_message:
  "(send_compensation_email_to_accounting env config templates pdf found extracted e stop n4 w4
       = (Inr False, n5, w5) \<longrightarrow> calls w5 = calls w4)
   \<and> (archive_and_report env config False e extracted found w5 = (res6, w6) \<longrightarrow>
         w6 = w5 \<and> \<not> success res6 \<and> message res6 = Delivery_failed)
   \<and> (\<not> stop n
        \<and> find_compensation_email env criteria stop (Suc n) = (Inr (Some (e, pdf)), n1)
        \<and> extract_invoice_numbers (env_unicode env) (env_findall env) (env_iter_order env) stop
             (att_content pdf) (regex_pattern (extraction criteria)) n1 = (Inr extracted, n2)
        \<and> extracted \<noteq> []
        \<and> find_related_invoices (env_unicode env) stop (invoice_faults env) (env_account env)
             extracted (datetime_received e) criteria n2 = (Inr found, n3)
        \<and> (if length found < length extracted
            then send_partial_results_notification env config templates e extracted found stop
                   n3 w
            else (Inr True, n3, w)) = (Inr notified, n4, w4)
        \<and> send_compensation_email_to_accounting env config templates pdf found extracted e stop
             n4 w4 = (Inr False, n5, w5)
        \<longrightarrow> (\<exists>result. process_emails env config templates criteria stop n w = (result, n5, w5)
                 \<and> \<not> success result \<and> message result = Delivery_failed)
            \<and> (\<exists>sent. calls w5 = calls w @ sent \<and> list_all is_sent sent))
   \<and> (process_emails env config templates criteria stop n w = (res, n', w')
        \<and> message res = Delivery_failed \<longrightarrow>
         \<not> success res \<and> (\<exists>sent. calls w' = calls w @ sent \<and> list_all is_sent sent))"
proof -
  have 1: "calls w5 = calls w4"
    if "send_compensation_email_to_accounting env config templates pdf found extracted e stop n4 w4
       = (Inr False, n5, w5)"
    using that send_compensation_calls by blast
  have 2: "w6 = w5 \<and> \<not> success res6 \<and> message res6 = Delivery_failed"
    if "archive_and_report env config False e extracted found w5 = (res6, w6)"
    using that archive_and_report_not_sent by blast
  have 3: "(\<exists>result. process_emails env config templates criteria stop n w = (result, n5, w5)
                 \<and> \<not> success result \<and> message result = Delivery_failed)
            \<and> (\<exists>sent. calls w5 = calls w @ sent \<and> list_all is_sent sent)"
    if h: "\<not> stop n
        \<and> find_compensation_email env criteria stop (Suc n) = (Inr (Some (e, pdf)), n1)
        \<and> extract_invoice_numbers (env_unicode env) (env_findall env) (env_iter_order env) stop
             (att_content pdf) (regex_pattern (extraction criteria)) n1 = (Inr extracted, n2)
        \<and> extracted \<noteq> []
        \<and> find_related_invoices (env_unicode env) stop (invoice_faults env) (env_account env)
             extracted (datetime_received e) criteria n2 = (Inr found, n3)
        \<and> (if length found < length extracted
            then send_partial_results_notification env config templates e extracted found stop
                   n3 w
            else (Inr True, n3, w)) = (Inr notified, n4, w4)
        \<and> send_compensation_email_to_accounting env config templates pdf found extracted e stop
             n4 w4 = (Inr False, n5, w5)"
  proof -
    from h have run: "process_emails env config templates criteria stop n w =
           (\<lparr>success = False, message = Delivery_failed, email_subject = Some (subject e),
             extracted_data = extracted, found_attachments_count = length found,
             missing_invoices = find_missing_invoices (env_unicode env) extracted found\<rparr>,
            n5, w5)"
      using process_emails_failed_delivery [of stop n env criteria e pdf n1 extracted n2 found n3
          config templates w notified n4 w4 n5 w5]
      by blast
    from h have "\<exists>sent. calls w4 = calls w @ sent \<and> list_all is_sent sent"
      using partial_step_calls [of found extracted env config templates e stop n3 w
          "Inr notified" n4 w4]
      by blast
    moreover from h have "calls w5 = calls w4"
      using send_compensation_calls by blast
    ultimately show ?thesis
      using run by simp
  qed
  have 4: "\<not> success res \<and> (\<exists>sent. calls w' = calls w @ sent \<and> list_all is_sent sent)"
    if h: "process_emails env config templates criteria stop n w = (res, n', w')
        \<and> message res = Delivery_failed"
  proof -
    obtain r k v where s: "process_steps env config templates criteria stop n w = (r, k, v)"
      by (cases "process_steps env config templates criteria stop n w")
    show ?thesis
    proof (cases r)
      case (Inl x)
      with h s show ?thesis
        by (auto simp: process_emails_def handle_exn_def failure_def split: if_splits)
    next
      case (Inr result)
      with h s have "process_steps env config templates criteria stop n w = (Inr res, n', w')"
        by (auto simp: process_emails_def)
      with h show ?thesis
        using process_steps_failed by blast
    qed
  qed
  from 1 2 3 4 show ?thesis by blast
qed

theorem failed_delivery_leaves_source_message_witness:
  "\<not> not_cancelled 0
   \<and> find_compensation_email second_send_fails example_criteria not_cancelled (Suc 0)
       = (Inr (Some (kompensata_message, kompensata_pdf)), 4)
   \<and> extract_invoice_numbers (env_unicode second_send_fails) (env_findall second_send_fails)
        (env_iter_order second_send_fails) not_cancelled (att_content kompensata_pdf)
        (regex_pattern (extraction example_criteria)) 4
       = (Inr [ascii ''INV-1001'', ascii ''INV-2002''], 6)
   \<and> find_related_invoices (env_unicode second_send_fails) not_cancelled
        (invoice_faults second_send_fails) (env_account second_send_fails)
        [ascii ''INV-1001'', ascii ''INV-2002''] (datetime_received kompensata_message)
        example_criteria 6
       = (Inr [file_attachment (ascii ''inv-1001_copy.pdf'')], 14)
   \<and> send_partial_results_notification second_send_fails example_config example_templates
        kompensata_message [ascii ''INV-1001'', ascii ''INV-2002'']
        [file_attachment (ascii ''inv-1001_copy.pdf'')] not_cancelled 14 empty_world
       = (Inr True, 15,
          \<lparr>calls = [Sent [ascii ''jan@firma.pl''] (ascii ''UWAGA: Kompensata 05'') (ascii ''1/2'') []],
           send_attempts = 1\<rparr>)
   \<and> send_compensation_email_to_accounting second_send_fails example_config example_templates
        kompensata_pdf [file_attachment (ascii ''inv-1001_copy.pdf'')]
        [ascii ''INV-1001'', ascii ''INV-2002''] kompensata_message not_cancelled 15
        \<lparr>calls = [Sent [ascii ''jan@firma.pl''] (ascii ''UWAGA: Kompensata 05'') (ascii ''1/2'') []],
         send_attempts = 1\<rparr>
       = (Inr False, 17,
          \<lparr>calls = [Sent [ascii ''jan@firma.pl''] (ascii ''UWAGA: Kompensata 05'') (ascii ''1/2'') []],
           send_attempts = 2\<rparr>)
   \<and> archive_and_report second_send_fails example_config False kompensata_message
        [ascii ''INV-1001'', ascii ''INV-2002''] [file_attachment (ascii ''inv-1001_copy.pdf'')]
        \<lparr>calls = [Sent [ascii ''jan@firma.pl''] (ascii ''UWAGA: Kompensata 05'') (ascii ''1/2'') []],
         send_attempts = 2\<rparr>
       = (\<lparr>success = False, message = Delivery_failed,
           email_subject = Some (ascii ''Kompensata 05''),
           extracted_data = [ascii ''INV-1001'', ascii ''INV-2002''], found_attachments_count = 1,
           missing_invoices = [ascii ''INV-2002'']\<rparr>,
          \<lparr>calls = [Sent [ascii ''jan@firma.pl''] (ascii ''UWAGA: Kompensata 05'') (ascii ''1/2'') []],
           send_attempts = 2\<rparr>)
   \<and> process_emails second_send_fails example_config example_templates example_criteria
        not_cancelled 0 empty_world
       = (\<lparr>success = False, message = Delivery_failed,
           email_subject = Some (ascii ''Kompensata 05''),
           extracted_data = [ascii ''INV-1001'', ascii ''INV-2002''], found_attachments_count = 1,
           missing_invoices = [ascii ''INV-2002'']\<rparr>,
          17,
          \<lparr>calls = [Sent [ascii ''jan@firma.pl''] (ascii ''UWAGA: Kompensata 05'') (ascii ''1/2'') []],
           send_attempts = 2\<rparr>)
   \<and> (\<exists>sent. calls \<lparr>calls = [Sent [ascii ''jan@firma.pl''] (ascii ''UWAGA: Kompensata 05'')
                                  (ascii ''1/2'') []],
                         send_attempts = 2\<rparr> = calls empty_world @ sent
              \<and> list_all is_sent sent)"
proof -
  let ?ids = "[ascii ''INV-1001'', ascii ''INV-2002'']"
  let ?found = "[file_attachment (ascii ''inv-1001_copy.pdf'')]"
  let ?res = "\<lparr>success = False, message = Delivery_failed,
           email_subject = Some (ascii ''Kompensata 05''),
           extracted_data = ?ids, found_attachments_count = 1,
           missing_invoices = [ascii ''INV-2002'']\<rparr>"
  let ?w4 = "\<lparr>calls = [Sent [ascii ''jan@firma.pl''] (ascii ''UWAGA: Kompensata 05'') (ascii ''1/2'') []],
           send_attempts = 1\<rparr>"
  let ?w5 = "\<lparr>calls = [Sent [ascii ''jan@firma.pl''] (ascii ''UWAGA: Kompensata 05'') (ascii ''1/2'') []],
           send_attempts = 2\<rparr>"
  have s: "\<not> not_cancelled 0" by (simp add: not_cancelled_def)
  have c: "find_compensation_email second_send_fails example_criteria not_cancelled (Suc 0)
       = (Inr (Some (kompensata_message, kompensata_pdf)), 4)"
    by code_simp
  have x: "extract_invoice_numbers (env_unicode second_send_fails) (env_findall second_send_fails)
        (env_iter_order second_send_fails) not_cancelled (att_content kompensata_pdf)
        (regex_pattern (extraction example_criteria)) 4 = (Inr ?ids, 6)"
    by code_simp
  have ne: "?ids \<noteq> []" by simp
  have f: "find_related_invoices (env_unicode second_send_fails) not_cancelled
        (invoice_faults second_send_fails) (env_account second_send_fails)
        ?ids (datetime_received kompensata_message) example_criteria 6 = (Inr ?found, 14)"
    by code_simp
  have p: "send_partial_results_notification second_send_fails example_config example_templates
        kompensata_message ?ids ?found not_cancelled 14 empty_world = (Inr True, 15, ?w4)"
    by code_simp
  then have p': "(if length ?found < length ?ids
            then send_partial_results_notification second_send_fails example_config
                   example_templates kompensata_message ?ids ?found not_cancelled 14 empty_world
            else (Inr True, 14, empty_world)) = (Inr True, 15, ?w4)"
    by simp
  have d: "send_compensation_email_to_accounting second_send_fails example_config
        example_templates kompensata_pdf ?found ?ids kompensata_message not_cancelled 15 ?w4
       = (Inr False, 17, ?w5)"
    by code_simp
  have a: "archive_and_report second_send_fails example_config False kompensata_message
        ?ids ?found ?w5 = (?res, ?w5)"
    by code_simp
  have run: "process_emails second_send_fails example_config example_templates example_criteria
        not_cancelled 0 empty_world = (?res, 17, ?w5)"
    by code_simp
  have m: "message ?res = Delivery_failed" by simp
  show ?thesis
    using s c x ne f p p' d a run m
      failed_delivery_leaves_source_message [where env = second_send_fails
        and config = example_config and templates = example_templates
        and criteria = example_criteria and stop = not_cancelled and n = 0 and w = empty_world
        and res = ?res and n' = 17 and w' = ?w5 and pdf = kompensata_pdf and found = ?found
        and extracted = ?ids and e = kompensata_message and ?n1.0 = 4 and ?n2.0 = 6
        and ?n3.0 = 14 and notified = True and ?n4.0 = 15 and ?w4.0 = ?w4
        and ?n5.0 = 17 and ?w5.0 = ?w5 and ?res6.0 = ?res and ?w6.0 = ?w5]
    by simp
qed

end
